theory Spec2Isabelle
  imports Complex_Main "HOL-Library.AList" "HOL-Library.Word"
begin

section \<open>The network interface of a shard-storage node (lib/network/index.js)\<close>

text \<open>
  A shallow embedding of \<^verbatim>\<open>Network\<close>: the constructor, \<^verbatim>\<open>join\<close>, \<^verbatim>\<open>leave\<close>,
  \<^verbatim>\<open>audit\<close>, \<^verbatim>\<open>retrieve\<close>, \<^verbatim>\<open>store\<close> with its pending-contract continuation, the
  handler that \<^verbatim>\<open>_farm\<close> subscribes, and the inbound hook \<^verbatim>\<open>_verifyMessage\<close>. The
  object's fields are a record that every
  operation takes and returns. An operation ends in one of three ways: it throws, it
  passes an error to its callback, or it passes a value to its callback; the first two
  are the two constructors of \<open>failure\<close>. The callbacks of one operation are run in
  the order the source nests them, so an operation is one function from the state and
  the answers of its collaborators to an outcome and the next state.
\<close>

subsection \<open>Values of the runtime\<close>

type_synonym bytes = "8 word list"

text \<open>
  A decoded JSON value, with \<^verbatim>\<open>undefined\<close> for what is absent. An object lists its
  members, each key once. A number is the rational its double denotes.
\<close>

datatype json =
    JUndefined
  | JNull
  | JBool bool
  | JNum rat
  | JStr string
  | JArr "json list"
  | JObj "(string \<times> json) list"

text \<open>
  \<^verbatim>\<open>Error x\<close> is \<^verbatim>\<open>new Error(x)\<close>, kept with its argument; \<^verbatim>\<open>AssertionError m\<close> is what
  \<^verbatim>\<open>assert(false, m)\<close> throws; \<^verbatim>\<open>TypeError\<close> is what reading a property of
  \<^verbatim>\<open>undefined\<close> or \<^verbatim>\<open>null\<close> throws.
\<close>

datatype js_error = AssertionError string | TypeError | Error json

datatype failure = Thrown js_error | Passed js_error

text \<open>JavaScript's truthiness, as \<^verbatim>\<open>if (x)\<close> and \<^verbatim>\<open>!x\<close> read a value.\<close>

fun truthy :: "json \<Rightarrow> bool" where
  "truthy JUndefined = False"
| "truthy JNull = False"
| "truthy (JBool b) = b"
| "truthy (JNum n) = (n \<noteq> 0)"
| "truthy (JStr s) = (s \<noteq> [])"
| "truthy (JArr xs) = True"
| "truthy (JObj kvs) = True"

text \<open>
  \<^verbatim>\<open>x.k\<close> for one of the keys this file reads (\<^verbatim>\<open>message\<close>, \<^verbatim>\<open>proof\<close>,
  \<^verbatim>\<open>data_shard\<close>): a TypeError on \<^verbatim>\<open>undefined\<close> and \<^verbatim>\<open>null\<close>, the member of an
  object, and \<^verbatim>\<open>undefined\<close> on any other value, none of which has such a member.
\<close>

fun get_prop :: "json \<Rightarrow> string \<Rightarrow> js_error + json" where
  "get_prop JUndefined k = Inl TypeError"
| "get_prop JNull k = Inl TypeError"
| "get_prop (JObj kvs) k = Inr (case map_of kvs k of None \<Rightarrow> JUndefined | Some v \<Rightarrow> v)"
| "get_prop v k = Inr JUndefined"

subsection \<open>Numbers and strings\<close>

text \<open>
  A JavaScript number, when it is not one of the infinities: the rational its double
  denotes, or \<^verbatim>\<open>NaN\<close>.
\<close>

datatype jsnum = Num rat | NaN

text \<open>The integers that doubles hold exactly: those of size at most \<open>2^53\<close>.\<close>

definition is_safe_int :: "rat \<Rightarrow> bool" where
  "is_safe_int q \<longleftrightarrow> q = of_int \<lfloor>q\<rfloor> \<and> \<bar>q\<bar> \<le> 9007199254740992"

text \<open>The decimal digits of a natural number, and of an integer with its sign.\<close>

definition digit_char :: "nat \<Rightarrow> char" where
  "digit_char n = ''0123456789'' ! n"

function decimal :: "nat \<Rightarrow> string" where
  "decimal n =
     (if n < 10 then [digit_char n] else decimal (n div 10) @ [digit_char (n mod 10)])"
  by pat_completeness auto
termination
  by (relation "measure id") auto

declare decimal.simps [simp del]

definition show_int :: "int \<Rightarrow> string" where
  "show_int n = (if n < 0 then CHR ''-'' # decimal (nat (- n)) else decimal (nat n))"

text \<open>
  The number a string of decimal digits denotes; \<open>None\<close> for the empty string and for a
  string with any other character in it.
\<close>

definition digit_of :: "char \<Rightarrow> nat option" where
  "digit_of c =
     (let k = of_char c :: nat in if 48 \<le> k \<and> k \<le> 57 then Some (k - 48) else None)"

fun digits_acc :: "nat \<Rightarrow> string \<Rightarrow> nat option" where
  "digits_acc a [] = Some a"
| "digits_acc a (c # cs) =
     (case digit_of c of None \<Rightarrow> None | Some d \<Rightarrow> digits_acc (10 * a + d) cs)"

definition digits_value :: "string \<Rightarrow> nat option" where
  "digits_value s = (if s = [] then None else digits_acc 0 s)"

subsection \<open>Contacts, contracts, audit records, storage items\<close>

record contact =
  address :: string
  port :: nat
  nodeID :: string

text \<open>
  Modelled from the spec: \<^verbatim>\<open>Contract\<close> (lib/contract) is not part of the sources; a
  contract is its fields, its constructor keeps the ones it is given and leaves the
  others unset (\<open>None\<close>), and \<^verbatim>\<open>set\<close> and \<^verbatim>\<open>get\<close> write and read one field.
  \<open>store_end\<close> is a JavaScript number, which can be \<^verbatim>\<open>NaN\<close>. The object form of a
  contract (\<^verbatim>\<open>toObject()\<close>) has the same fields and is kept as the same record.
\<close>

record contract =
  renter_id :: string
  data_size :: nat
  data_hash :: string
  store_begin :: int
  store_end :: jsnum
  audit_count :: nat
  farmer_id :: "string option"
  payment_destination :: "string option"
  farmer_signature :: "string option"
  renter_signature :: "string option"

record private_record =
  root :: string
  depth :: nat
  challenges :: "string list"

text \<open>
  What \<^verbatim>\<open>new Audit({ audits: n, shard: data })\<close> holds: the record
  \<^verbatim>\<open>getPublicRecord()\<close> returns, which is opaque to this file, and the record
  \<^verbatim>\<open>getPrivateRecord()\<close> returns.
\<close>

record audit_tree =
  publicRecord :: json
  privateRecord :: private_record

text \<open>
  A JavaScript object used as a dictionary is an association list: \<^verbatim>\<open>Object.keys\<close>
  lists the keys in the order of their first insertion, and an assignment to a key
  that exists keeps its place (\<^const>\<open>AList.update\<close>). The keys here are node IDs, hex
  strings of 40 digits, which are never array indices, the one kind of key that
  \<^verbatim>\<open>Object.keys\<close> would list out of that order.
\<close>

record storage_item =
  hash :: string
  contracts :: "(string \<times> contract) list"
  trees :: "(string \<times> json) list"
  item_challenges :: "(string \<times> private_record) list"
  meta :: "(string \<times> json) list"

text \<open>
  Modelled from the spec: the constructor of \<^verbatim>\<open>StorageItem\<close> (lib/storage/item) is not
  part of the sources; a fresh item for a shard hash has the four maps of the data
  model, all empty.
\<close>

definition new_StorageItem :: "string \<Rightarrow> storage_item" where
  "new_StorageItem h =
     \<lparr>hash = h, contracts = [], trees = [], item_challenges = [], meta = []\<rparr>"

subsection \<open>Library primitives\<close>

text \<open>
  The functions of the libraries the file calls and the constant
  \<^verbatim>\<open>constants.NONCE_EXPIRE\<close> are parameters of the model, gathered in one record:
  \<^item> \<open>sha256\<close>, \<open>ripemd160\<close>: the hash functions; \<open>to_hex\<close>: \<^verbatim>\<open>buf.toString('hex')\<close>;
  \<^item> \<open>fromPublicKeyHash n\<close>: the 20 bytes of
    \<^verbatim>\<open>bitcore.Address.fromPublicKeyHash(Buffer(n, 'hex'))\<close>, or the error it throws;
  \<^item> \<open>magicHash t\<close>: \<^verbatim>\<open>Message(t).magicHash()\<close>, the hash of the signed text;
  \<^item> \<open>fromCompact s\<close>: \<^verbatim>\<open>Signature.fromCompact(new Buffer(s, 'base64'))\<close>, or the
    error either call throws (\<open>s\<close> is whatever value the message carries);
  \<^item> \<open>toPublicKey h s\<close>: \<^verbatim>\<open>ecdsa.toPublicKey()\<close> for the hash \<open>h\<close> and the signature
    \<open>s\<close>, the recovered public key, or the error it throws;
  \<^item> \<open>ecdsa_verify h s k\<close>: the ECDSA check of the signature under the key;
  \<^item> \<open>ms d\<close>: the milliseconds of a duration string, \<open>None\<close> for the
    \<^verbatim>\<open>undefined\<close> it returns on a string it cannot read;
  \<^item> \<open>to_double q\<close>: the double nearest to \<open>q\<close>, for a sum that is not an integer a
    double holds exactly;
  \<^item> \<open>greater_than_string n s\<close>: \<^verbatim>\<open>n > s\<close> for a string \<open>s\<close> that is not a sequence of
    decimal digits; \<open>greater_than_sum n v\<close>: \<^verbatim>\<open>n > (NONCE_EXPIRE + v)\<close> for a value \<open>v\<close>
    that is an array, an object or a number that is not an integer;
    \<open>value_to_string v\<close>: the string \<^verbatim>\<open>'' + v\<close> of such a value, or of an integer of
    22 digits or more;
  \<^item> \<open>Contract_fromObject\<close>, \<open>Contract_toObject\<close>: \<^verbatim>\<open>Contract.fromObject\<close> (or the
    error it throws) and \<^verbatim>\<open>contract.toObject()\<close> as a JSON value;
    \<open>Contract_sign r k c\<close>: \<^verbatim>\<open>c.sign(r, key)\<close> with the private key of the node \<open>k\<close>;
    \<open>Contract_verify c r n\<close>: \<^verbatim>\<open>c.verify(r, n)\<close>;
  \<^item> \<open>getAddress k\<close>: \<^verbatim>\<open>_keypair.getAddress()\<close> of the node \<open>k\<close>, the address of the
    public key that \<open>k\<close> is the hash of;
  \<^item> \<open>url_parse\<close>: \<^verbatim>\<open>url.parse\<close>, with \<open>url_port\<close> already \<^verbatim>\<open>Number(parsed.port)\<close>
    and \<open>path = None\<close> for a \<^verbatim>\<open>null\<close> path;
  \<^item> \<open>new_Audit n data\<close>: \<^verbatim>\<open>new Audit({ audits: n, shard: data })\<close>;
  \<^item> \<open>verification_verify p r d\<close>: \<^verbatim>\<open>new Verification(p).verify(r, d)\<close>, or the
    error it throws.
\<close>

record parsed_url =
  hostname :: string
  url_port :: nat
  path :: "string option"

record prims =
  NONCE_EXPIRE :: nat
  sha256 :: "bytes \<Rightarrow> bytes"
  ripemd160 :: "bytes \<Rightarrow> bytes"
  to_hex :: "bytes \<Rightarrow> string"
  fromPublicKeyHash :: "string \<Rightarrow> js_error + bytes"
  magicHash :: "string \<Rightarrow> bytes"
  fromCompact :: "json \<Rightarrow> js_error + bytes"
  toPublicKey :: "bytes \<Rightarrow> bytes \<Rightarrow> js_error + bytes"
  ecdsa_verify :: "bytes \<Rightarrow> bytes \<Rightarrow> bytes \<Rightarrow> bool"
  ms :: "string \<Rightarrow> rat option"
  to_double :: "rat \<Rightarrow> rat"
  greater_than_string :: "int \<Rightarrow> string \<Rightarrow> bool"
  greater_than_sum :: "int \<Rightarrow> json \<Rightarrow> bool"
  value_to_string :: "json \<Rightarrow> string"
  Contract_fromObject :: "json \<Rightarrow> js_error + contract"
  Contract_toObject :: "contract \<Rightarrow> json"
  Contract_sign :: "string \<Rightarrow> string \<Rightarrow> contract \<Rightarrow> contract"
  Contract_verify :: "contract \<Rightarrow> string \<Rightarrow> string \<Rightarrow> bool"
  getAddress :: "string \<Rightarrow> string"
  url_parse :: "string \<Rightarrow> parsed_url"
  new_Audit :: "nat \<Rightarrow> bytes \<Rightarrow> audit_tree"
  verification_verify :: "json \<Rightarrow> string \<Rightarrow> nat \<Rightarrow> js_error + bool"

text \<open>
  Modelled from the spec: \<^verbatim>\<open>utils.rmd160sha256\<close> (lib/utils) is not part of the sources;
  the shard hash is \<^verbatim>\<open>ripemd160(sha256(data))\<close>, hex-encoded as every hash on the wire.
\<close>

definition rmd160sha256 :: "prims \<Rightarrow> bytes \<Rightarrow> string" where
  "rmd160sha256 P d = to_hex P (ripemd160 P (sha256 P d))"

text \<open>
  Modelled from the spec: \<^verbatim>\<open>Message.verify(address, signature)\<close> belongs to the
  bitcore-message library and is not part of the sources. It recovers the public key
  from the compact signature, derives the node ID \<^verbatim>\<open>ripemd160(sha256(pubkey))\<close>,
  compares it to the address built from \<^verbatim>\<open>contact.nodeID\<close>, and checks the signature.
\<close>

definition Message_verify :: "prims \<Rightarrow> bytes \<Rightarrow> bytes \<Rightarrow> json \<Rightarrow> bool" where
  "Message_verify P hashbuf addr sig =
     (case fromCompact P sig of
        Inl e \<Rightarrow> False
      | Inr signobj \<Rightarrow>
         (case toPublicKey P hashbuf signobj of
            Inl e \<Rightarrow> False
          | Inr pubkey \<Rightarrow>
             ripemd160 P (sha256 P pubkey) = addr \<and> ecdsa_verify P hashbuf signobj pubkey))"

subsection \<open>Messages and the collaborators' answers\<close>

text \<open>
  The signed envelope of an inbound message: \<^verbatim>\<open>__nonce\<close> and \<^verbatim>\<open>__signature\<close>, read from
  \<^verbatim>\<open>params\<close> of a request and from \<^verbatim>\<open>result\<close> of a response. The hook checks the type
  of neither, so each is whatever JSON value the peer sent, \<^verbatim>\<open>undefined\<close> when it sent
  none. A response that carries an error has no \<^verbatim>\<open>result\<close> (\<open>NoResult\<close>).
\<close>

record envelope =
  nonce :: json
  signature :: json

datatype body = Request envelope | Result envelope | NoResult

record message =
  msg_id :: string
  msg_body :: body

text \<open>The outbound requests this file builds, with their \<^verbatim>\<open>params\<close>.\<close>

datatype rpc =
    AUDIT string "string option" contact
  | RETRIEVE string contact
  | CONSIGN string string json contact
  | OFFER json contact

record response =
  r_error :: json
  r_result :: json

text \<open>\<^verbatim>\<open>new Buffer(x, 'hex')\<close>, kept with its argument.\<close>

datatype buffer = Buffer_hex json

text \<open>
  What the collaborators answer during one operation: the manager's backend
  (\<open>load_error\<close>, \<open>save_error\<close>: the error of a failing load or save; \<open>not_found\<close>: the
  error of loading a hash that is not stored), the router's \<^verbatim>\<open>findNode\<close> (its argument
  is \<open>None\<close> when the key it is given is \<^verbatim>\<open>undefined\<close>), the transport's \<^verbatim>\<open>send\<close>, the
  node's \<^verbatim>\<open>connect\<close> (whether it succeeds) and \<^verbatim>\<open>disconnect\<close>.
\<close>

record env =
  load_error :: "string \<Rightarrow> js_error option"
  not_found :: js_error
  save_error :: "storage_item \<Rightarrow> js_error option"
  findNode :: "string option \<Rightarrow> js_error + contact list"
  send :: "contact \<Rightarrow> rpc \<Rightarrow> js_error + response"
  connect :: "contact \<Rightarrow> bool"
  disconnect :: "js_error option"

text \<open>
  Modelled from the spec: \<^verbatim>\<open>Manager\<close> (lib/manager) is not part of the sources; it
  loads the item stored under a shard hash, failing when there is none, and saves an
  item under its own hash.
\<close>

definition manager_load ::
  "env \<Rightarrow> (string \<rightharpoonup> storage_item) \<Rightarrow> string \<Rightarrow> js_error + storage_item" where
  "manager_load E m h =
     (case load_error E h of
        Some e \<Rightarrow> Inl e
      | None \<Rightarrow> (case m h of None \<Rightarrow> Inl (not_found E) | Some item \<Rightarrow> Inr item))"

definition manager_save ::
  "env \<Rightarrow> (string \<rightharpoonup> storage_item) \<Rightarrow> storage_item
     \<Rightarrow> js_error option \<times> (string \<rightharpoonup> storage_item)" where
  "manager_save E m item =
     (case save_error E item of
        Some e \<Rightarrow> (Some e, m)
      | None \<Rightarrow> (None, m(hash item \<mapsto> item)))"

subsection \<open>The state of a Network instance\<close>

datatype hook =
    On_error_handleTransportError
  | Before_serialize_signMessage
  | Before_receive_verifyMessage
  | Before_receive_protocol

record options =
  seeds :: "string list"
  opt_address :: string
  opt_port :: nat
  farmer :: bool

text \<open>
  The closure \<^verbatim>\<open>store\<close> leaves in \<^verbatim>\<open>_pendingContracts\<close>, as the variables it captures.
\<close>

record pending =
  p_shardHash :: string
  p_contract :: contract
  p_data :: bytes
  p_audit :: audit_tree

text \<open>A timer of \<^verbatim>\<open>setInterval\<close>; its handle is its index in \<open>timers\<close>.\<close>

record timer =
  t_contact :: contact
  t_interval :: rat
  t_active :: bool

text \<open>
  The fields of the instance (the underscore of the source's names dropped):
  \<open>node\<close> says whether \<^verbatim>\<open>this._node\<close> is defined, \<open>opened\<close> is \<^verbatim>\<open>this._open\<close>,
  \<open>pingSeeds\<close> is \<open>None\<close> while \<^verbatim>\<open>this._pingSeeds\<close> is \<^verbatim>\<open>undefined\<close>, \<open>hooks\<close> are the
  handlers registered on the transport, \<open>published\<close> the contracts handed to
  \<^verbatim>\<open>_pubsub.publish\<close>, \<open>subscriptions\<close> the number of handlers given to
  \<^verbatim>\<open>_pubsub.subscribe\<close>, and \<open>manager\<close> the items the manager stores.
\<close>

record network =
  pendingContracts :: "(string \<times> pending) list"
  keypair_nodeID :: string
  manager :: "string \<rightharpoonup> storage_item"
  options :: options
  self_contact :: contact
  hooks :: "hook list"
  node :: bool
  pubkeys :: "string \<rightharpoonup> bytes"
  opened :: bool
  pingSeeds :: "(string \<times> nat) list option"
  timers :: "timer list"
  published :: "contract list"
  subscriptions :: nat

text \<open>
  The constructor. Its two assertions check the classes of the keypair and the manager,
  which the types give; the options are taken as merged with the defaults.
\<close>

definition Network ::
  "options \<Rightarrow> string \<Rightarrow> (string \<rightharpoonup> storage_item) \<Rightarrow> network" where
  "Network opts kp_nodeID mgr =
     \<lparr>pendingContracts = [],
      keypair_nodeID = kp_nodeID,
      manager = mgr,
      options = opts,
      self_contact = \<lparr>address = opt_address opts, port = opt_port opts, nodeID = kp_nodeID\<rparr>,
      hooks = [],
      node = False,
      pubkeys = Map.empty,
      opened = False,
      pingSeeds = None,
      timers = [],
      published = [],
      subscriptions = 0\<rparr>"

subsection \<open>\<^verbatim>\<open>_verifyMessage\<close>\<close>

text \<open>
  The envelope the hook reads: \<^verbatim>\<open>message.params\<close> of a request, \<^verbatim>\<open>message.result\<close>
  otherwise; reading \<^verbatim>\<open>__nonce\<close> of a missing \<^verbatim>\<open>result\<close> throws.
\<close>

fun envelope_of :: "message \<Rightarrow> js_error + envelope" where
  "envelope_of m =
     (case msg_body m of
        Request e \<Rightarrow> Inr e
      | Result e \<Rightarrow> Inr e
      | NoResult \<Rightarrow> Inl TypeError)"

text \<open>
  The expiry test \<^verbatim>\<open>Date.now() > (constants.NONCE_EXPIRE + nonce)\<close>, by the kind of value
  the nonce is.
  \<^item> An integer: the numbers are added and compared. \<open>now\<close> is an integer below \<open>2^53\<close>,
    and rounding the sum to a double moves it across no such integer, so the test is
    the one on the exact sum.
  \<^item> A string: \<^verbatim>\<open>+\<close> appends it to the digits of \<^verbatim>\<open>NONCE_EXPIRE\<close>, and \<^verbatim>\<open>>\<close> reads the
    result as a number: the one its digits denote when it has digits only (rounded to
    a double, which again moves it across no integer below \<open>2^53\<close>).
  \<^item> \<^verbatim>\<open>undefined\<close>: the sum is \<^verbatim>\<open>NaN\<close>, and no number is greater than \<^verbatim>\<open>NaN\<close>.
  \<^item> \<^verbatim>\<open>null\<close>, \<^verbatim>\<open>false\<close> and \<^verbatim>\<open>true\<close> count as 0, 0 and 1.
\<close>

fun expired :: "prims \<Rightarrow> int \<Rightarrow> json \<Rightarrow> bool" where
  "expired P now (JNum q) =
     (if q = of_int \<lfloor>q\<rfloor> then now > int (NONCE_EXPIRE P) + \<lfloor>q\<rfloor>
      else greater_than_sum P now (JNum q))"
| "expired P now (JStr s) =
     (case digits_value (decimal (NONCE_EXPIRE P) @ s) of
        Some k \<Rightarrow> now > int k
      | None \<Rightarrow> greater_than_string P now (decimal (NONCE_EXPIRE P) @ s))"
| "expired P now JUndefined = False"
| "expired P now JNull = (now > int (NONCE_EXPIRE P))"
| "expired P now (JBool b) = (now > int (NONCE_EXPIRE P) + (if b then 1 else 0))"
| "expired P now v = greater_than_sum P now v"

text \<open>
  The signed text \<^verbatim>\<open>message.id + nonce\<close>: the id followed by the nonce as a string.
\<close>

fun nonce_string :: "prims \<Rightarrow> json \<Rightarrow> string" where
  "nonce_string P (JNum q) =
     (if q = of_int \<lfloor>q\<rfloor> \<and> \<bar>q\<bar> < 10 ^ 21 then show_int \<lfloor>q\<rfloor>
      else value_to_string P (JNum q))"
| "nonce_string P (JStr s) = s"
| "nonce_string P JUndefined = ''undefined''"
| "nonce_string P JNull = ''null''"
| "nonce_string P (JBool b) = (if b then ''true'' else ''false'')"
| "nonce_string P v = value_to_string P v"

text \<open>
  The hook, at the time \<open>now\<close> that \<^verbatim>\<open>Date.now()\<close> returns. The statements run in the
  source's order: the expiry test, the address of the contact's node ID, the signature
  object, the recovered key written to \<^verbatim>\<open>_pubkeys\<close>, and then the verification.
\<close>

definition verifyMessage ::
  "prims \<Rightarrow> int \<Rightarrow> network \<Rightarrow> message \<Rightarrow> contact \<Rightarrow> (failure + unit) \<times> network" where
  "verifyMessage P now st m c =
     (case envelope_of m of
        Inl e \<Rightarrow> (Inl (Thrown e), st)
      | Inr ev \<Rightarrow>
         if expired P now (nonce ev)
         then (Inl (Passed (Error (JStr ''Message signature expired''))), st)
         else
           (case fromPublicKeyHash P (nodeID c) of
              Inl e \<Rightarrow> (Inl (Thrown e), st)
            | Inr addr \<Rightarrow>
               (case fromCompact P (signature ev) of
                  Inl e \<Rightarrow> (Inl (Thrown e), st)
                | Inr signobj \<Rightarrow>
                   (let hashbuf = magicHash P (msg_id m @ nonce_string P (nonce ev)) in
                    case toPublicKey P hashbuf signobj of
                      Inl e \<Rightarrow> (Inl (Thrown e), st)
                    | Inr pubkey \<Rightarrow>
                       (let st' = st\<lparr>pubkeys := (pubkeys st)(nodeID c \<mapsto> pubkey)\<rparr> in
                        if \<not> Message_verify P hashbuf addr (signature ev)
                        then (Inl (Passed (Error (JStr ''Signature verification failed''))), st')
                        else (Inr (), st'))))))"

subsection \<open>\<^verbatim>\<open>audit\<close> and \<^verbatim>\<open>retrieve\<close>\<close>

text \<open>\<^verbatim>\<open>Object.keys(o)[0]\<close> and \<^verbatim>\<open>xs[0]\<close>: \<open>None\<close> is \<^verbatim>\<open>undefined\<close>.\<close>

fun first_key :: "('k \<times> 'v) list \<Rightarrow> 'k option" where
  "first_key [] = None"
| "first_key (kv # kvs) = Some (fst kv)"

fun first :: "'a list \<Rightarrow> 'a option" where
  "first [] = None"
| "first (x # xs) = Some x"

text \<open>
  The callback of \<^verbatim>\<open>_transport.send\<close> in \<^verbatim>\<open>audit\<close>, once the transport has a response:
  the response's error, the missing proof, the verifier's verdict.
\<close>

definition audit_response :: "prims \<Rightarrow> private_record \<Rightarrow> response \<Rightarrow> failure + bool" where
  "audit_response P a resp =
     (if truthy (r_error resp) then
        (case get_prop (r_error resp) ''message'' of
           Inl e \<Rightarrow> Inl (Thrown e)
         | Inr msg \<Rightarrow> Inl (Passed (Error msg)))
      else
        (case get_prop (r_result resp) ''proof'' of
           Inl e \<Rightarrow> Inl (Thrown e)
         | Inr prf \<Rightarrow>
            if \<not> truthy prf then Inl (Passed (Error (JStr ''Invalid proof returned'')))
            else
              (case verification_verify P prf (root a) (depth a) of
                 Inl e \<Rightarrow> Inl (Thrown e)
               | Inr verdict \<Rightarrow> Inr verdict)))"

text \<open>
  \<^verbatim>\<open>audit(hash, callback)\<close>: the outcome, the requests handed to the transport, and the
  state afterwards.
\<close>

definition audit ::
  "prims \<Rightarrow> env \<Rightarrow> network \<Rightarrow> string
     \<Rightarrow> (failure + bool) \<times> (contact \<times> rpc) list \<times> network" where
  "audit P E st h =
     (case manager_load E (manager st) h of
        Inl err \<Rightarrow> (Inl (Passed err), [], st)
      | Inr item \<Rightarrow>
         (let farmerID = first_key (contracts item) in
          case findNode E farmerID of
            Inl err \<Rightarrow> (Inl (Passed err), [], st)
          | Inr nodes \<Rightarrow>
             (case first (filter (\<lambda>n. Some (nodeID n) = farmerID) nodes) of
                None \<Rightarrow> (Inl (Passed (Error (JStr ''Could not find the farmer''))), [], st)
              | Some farmer_node \<Rightarrow>
                 (case map_of (item_challenges item) (nodeID farmer_node) of
                    None \<Rightarrow> (Inl (Thrown TypeError), [], st)
                  | Some a \<Rightarrow>
                     (let msg = AUDIT h (first (challenges a)) (self_contact st) in
                      case send E farmer_node msg of
                        Inl err \<Rightarrow> (Inl (Passed err), [(farmer_node, msg)], st)
                      | Inr resp \<Rightarrow>
                         (audit_response P a resp, [(farmer_node, msg)], st))))))"

text \<open>The callback of \<^verbatim>\<open>_transport.send\<close> in \<^verbatim>\<open>retrieve\<close>.\<close>

definition retrieve_response :: "response \<Rightarrow> failure + buffer" where
  "retrieve_response resp =
     (if truthy (r_error resp) then
        (case get_prop (r_error resp) ''message'' of
           Inl e \<Rightarrow> Inl (Thrown e)
         | Inr msg \<Rightarrow> Inl (Passed (Error msg)))
      else
        (case get_prop (r_result resp) ''data_shard'' of
           Inl e \<Rightarrow> Inl (Thrown e)
         | Inr shard \<Rightarrow>
            if \<not> truthy shard then Inl (Passed (Error (JStr ''Invalid shard returned'')))
            else Inr (Buffer_hex shard)))"

definition retrieve ::
  "env \<Rightarrow> network \<Rightarrow> string \<Rightarrow> (failure + buffer) \<times> (contact \<times> rpc) list \<times> network" where
  "retrieve E st h =
     (case manager_load E (manager st) h of
        Inl err \<Rightarrow> (Inl (Passed err), [], st)
      | Inr item \<Rightarrow>
         (let farmerID = first_key (contracts item) in
          case findNode E farmerID of
            Inl err \<Rightarrow> (Inl (Passed err), [], st)
          | Inr nodes \<Rightarrow>
             (case first (filter (\<lambda>n. Some (nodeID n) = farmerID) nodes) of
                None \<Rightarrow> (Inl (Passed (Error (JStr ''Could not find the farmer''))), [], st)
              | Some farmer_node \<Rightarrow>
                 (let msg = RETRIEVE h (self_contact st) in
                  case send E farmer_node msg of
                    Inl err \<Rightarrow> (Inl (Passed err), [(farmer_node, msg)], st)
                  | Inr resp \<Rightarrow> (retrieve_response resp, [(farmer_node, msg)], st)))))"

subsection \<open>\<^verbatim>\<open>store\<close> and the pending contract\<close>

text \<open>
  \<^verbatim>\<open>store(data, duration, callback)\<close>, with \<open>t1\<close> and \<open>t2\<close> the values of its two calls
  of \<^verbatim>\<open>Date.now()\<close>, in that order. Its three assertions check the types of the
  arguments, which the types here give, and the copy of \<^verbatim>\<open>data\<close> through its hex
  string has the same bytes. \<^verbatim>\<open>Date.now() + ms(duration)\<close> is \<^verbatim>\<open>NaN\<close> when \<^verbatim>\<open>ms\<close>
  returns \<^verbatim>\<open>undefined\<close>; otherwise it is the sum when that is an integer a double holds
  exactly, and the double nearest to the sum when not. The contract's constructor
  keeps the fields it is given.
  \<^verbatim>\<open>store\<close> registers the pending contract and publishes the contract; it calls its
  callback only from the pending contract.
\<close>

definition js_add :: "prims \<Rightarrow> rat \<Rightarrow> rat \<Rightarrow> rat" where
  "js_add P x y = (if is_safe_int (x + y) then x + y else to_double P (x + y))"

definition store_contract :: "prims \<Rightarrow> network \<Rightarrow> bytes \<Rightarrow> string \<Rightarrow> int \<Rightarrow> int \<Rightarrow> contract" where
  "store_contract P st data duration t1 t2 =
     \<lparr>renter_id = keypair_nodeID st,
      data_size = length data,
      data_hash = rmd160sha256 P data,
      store_begin = t1,
      store_end =
        (case ms P duration of None \<Rightarrow> NaN | Some d \<Rightarrow> Num (js_add P (of_int t2) d)),
      audit_count = 12,
      farmer_id = None,
      payment_destination = None,
      farmer_signature = None,
      renter_signature = None\<rparr>"

definition store :: "prims \<Rightarrow> network \<Rightarrow> bytes \<Rightarrow> string \<Rightarrow> int \<Rightarrow> int \<Rightarrow> network" where
  "store P st data duration t1 t2 =
     (let shardHash = rmd160sha256 P data;
          contract = store_contract P st data duration t1 t2;
          audit_obj = new_Audit P 12 data;
          entry = \<lparr>p_shardHash = shardHash, p_contract = contract, p_data = data,
                   p_audit = audit_obj\<rparr>
      in st\<lparr>pendingContracts := AList.update shardHash entry (pendingContracts st),
            published := published st @ [contract]\<rparr>)"

text \<open>
  \<^verbatim>\<open>item.contracts[farmer.nodeID] = contract\<close> and the three assignments after it.
\<close>

definition record_farmer :: "pending \<Rightarrow> contact \<Rightarrow> storage_item \<Rightarrow> storage_item" where
  "record_farmer p farmer_node item =
     item\<lparr>contracts := AList.update (nodeID farmer_node) (p_contract p) (contracts item),
          trees := AList.update (nodeID farmer_node) (publicRecord (p_audit p)) (trees item),
          item_challenges :=
            AList.update (nodeID farmer_node) (privateRecord (p_audit p)) (item_challenges item),
          meta := AList.update (nodeID farmer_node) (JObj []) (meta item)\<rparr>"

text \<open>
  The function \<^verbatim>\<open>store\<close> leaves in \<^verbatim>\<open>_pendingContracts[shardHash]\<close>, called with the
  farmer that offers: CONSIGN, then load or create the item, record the farmer, save.
\<close>

definition pending_contract ::
  "prims \<Rightarrow> env \<Rightarrow> network \<Rightarrow> pending \<Rightarrow> contact
     \<Rightarrow> (failure + string) \<times> (contact \<times> rpc) list \<times> network" where
  "pending_contract P E st p farmer_node =
     (let msg = CONSIGN (data_hash (p_contract p)) (to_hex P (p_data p))
                  (publicRecord (p_audit p)) (self_contact st) in
      case send E farmer_node msg of
        Inl err \<Rightarrow> (Inl (Passed err), [(farmer_node, msg)], st)
      | Inr resp \<Rightarrow>
         if truthy (r_error resp) then
           (case get_prop (r_error resp) ''message'' of
              Inl e \<Rightarrow> (Inl (Thrown e), [(farmer_node, msg)], st)
            | Inr m \<Rightarrow> (Inl (Passed (Error m)), [(farmer_node, msg)], st))
         else
           (let loaded =
                  (case manager_load E (manager st) (p_shardHash p) of
                     Inl err \<Rightarrow> new_StorageItem (p_shardHash p)
                   | Inr item \<Rightarrow> item);
                item = record_farmer p farmer_node loaded
            in case manager_save E (manager st) item of
                 (Some err, mgr) \<Rightarrow>
                   (Inl (Passed err), [(farmer_node, msg)], st\<lparr>manager := mgr\<rparr>)
               | (None, mgr) \<Rightarrow>
                   (Inr (p_shardHash p), [(farmer_node, msg)], st\<lparr>manager := mgr\<rparr>)))"

subsection \<open>\<^verbatim>\<open>join\<close> and \<^verbatim>\<open>leave\<close>\<close>

definition createContact :: "prims \<Rightarrow> string \<Rightarrow> js_error + contact" where
  "createContact P uri =
     (let parsed = url_parse P uri in
      case path parsed of
        None \<Rightarrow> Inl TypeError
      | Some pth \<Rightarrow>
         Inr \<lparr>address = hostname parsed, port = url_port parsed, nodeID = drop 1 pth\<rparr>)"

text \<open>\<^verbatim>\<open>seeds.map(this._createContact)\<close>: the first URI that throws ends the map.\<close>

fun map_createContact :: "prims \<Rightarrow> string list \<Rightarrow> js_error + contact list" where
  "map_createContact P [] = Inr []"
| "map_createContact P (uri # uris) =
     (case createContact P uri of
        Inl e \<Rightarrow> Inl e
      | Inr c \<Rightarrow>
         (case map_createContact P uris of
            Inl e \<Rightarrow> Inl e
          | Inr cs \<Rightarrow> Inr (c # cs)))"

text \<open>
  \<^verbatim>\<open>_addPingInterval(contact, interval)\<close>; its assertion checks that the interval is a
  number.
\<close>

definition addPingInterval :: "network \<Rightarrow> contact \<Rightarrow> rat \<Rightarrow> network" where
  "addPingInterval st c interval =
     st\<lparr>pingSeeds :=
           Some (AList.update (nodeID c) (length (timers st))
                   (case pingSeeds st of None \<Rightarrow> [] | Some ps \<Rightarrow> ps)),
        timers := timers st @ [\<lparr>t_contact = c, t_interval = interval, t_active = True\<rparr>]\<rparr>"

text \<open>\<^verbatim>\<open>clearInterval(handle)\<close>; a handle that names no timer is ignored.\<close>

definition clearInterval :: "nat \<Rightarrow> timer list \<Rightarrow> timer list" where
  "clearInterval h ts = (if h < length ts then ts[h := (ts ! h)\<lparr>t_active := False\<rparr>] else ts)"

text \<open>
  \<^verbatim>\<open>_removePingInterval(contact)\<close>: without a contact it stops every timer of
  \<^verbatim>\<open>_pingSeeds\<close> (none while that is \<^verbatim>\<open>undefined\<close>); with one it reads
  \<^verbatim>\<open>_pingSeeds[contact.nodeID]\<close>, which throws while \<^verbatim>\<open>_pingSeeds\<close> is \<^verbatim>\<open>undefined\<close>.
\<close>

definition removePingInterval :: "network \<Rightarrow> contact option \<Rightarrow> js_error + network" where
  "removePingInterval st copt =
     (case copt of
        None \<Rightarrow>
          (case pingSeeds st of
             None \<Rightarrow> Inr st
           | Some ps \<Rightarrow> Inr (st\<lparr>timers := fold clearInterval (map snd ps) (timers st)\<rparr>))
      | Some c \<Rightarrow>
          (case pingSeeds st of
             None \<Rightarrow> Inl TypeError
           | Some ps \<Rightarrow>
              (case map_of ps (nodeID c) of
                 None \<Rightarrow> Inr st
               | Some h \<Rightarrow> Inr (st\<lparr>timers := clearInterval h (timers st)\<rparr>))))"

text \<open>\<^verbatim>\<open>_farm()\<close> hands one handler to \<^verbatim>\<open>_subscribe\<close>.\<close>

definition farm :: "network \<Rightarrow> network" where
  "farm st = st\<lparr>subscriptions := Suc (subscriptions st)\<rparr>"

text \<open>
  \<^verbatim>\<open>item.contracts[renter.nodeID] = contract.toObject()\<close> and the assignment to
  \<^verbatim>\<open>item.meta\<close> after it: the farmer's record of a contract.
\<close>

definition record_renter :: "contract \<Rightarrow> contact \<Rightarrow> storage_item \<Rightarrow> storage_item" where
  "record_renter c renter_node item =
     item\<lparr>contracts := AList.update (nodeID renter_node) c (contracts item),
          meta := AList.update (nodeID renter_node) (JObj []) (meta item)\<rparr>"

text \<open>
  The handler that \<^verbatim>\<open>_farm\<close> subscribes, run on an object \<open>obj\<close> published on the contract
  topic: the requests it sends and the state it leaves. \<^verbatim>\<open>_subscribe\<close> drops an object
  that is no contract. The handler sets the farmer's fields, signs, looks the renter up
  and sends the OFFER; when the answer holds a contract that the renter has signed, it
  loads or creates the item of the shard, records the contract and an empty \<^verbatim>\<open>meta\<close>
  under the renter's node ID, and saves it. Every other path returns \<^verbatim>\<open>false\<close> (or
  throws on a response with neither error nor result) and leaves the state as it was;
  the handler has no callback, and an error of the save is ignored.
\<close>

definition farm_handler ::
  "prims \<Rightarrow> env \<Rightarrow> network \<Rightarrow> json \<Rightarrow> (contact \<times> rpc) list \<times> network" where
  "farm_handler P E st obj =
     (case Contract_fromObject P obj of
        Inl e \<Rightarrow> ([], st)
      | Inr c0 \<Rightarrow>
         (let c = Contract_sign P ''farmer'' (keypair_nodeID st)
                    (c0\<lparr>farmer_id := Some (keypair_nodeID st),
                        payment_destination := Some (getAddress P (keypair_nodeID st))\<rparr>) in
          case findNode E (Some (renter_id c)) of
            Inl err \<Rightarrow> ([], st)
          | Inr nodes \<Rightarrow>
             (case first (filter (\<lambda>n. nodeID n = renter_id c) nodes) of
                None \<Rightarrow> ([], st)
              | Some renter_node \<Rightarrow>
                 (let msg = OFFER (Contract_toObject P c) (self_contact st) in
                  case send E renter_node msg of
                    Inl err \<Rightarrow> ([(renter_node, msg)], st)
                  | Inr resp \<Rightarrow>
                     if truthy (r_error resp) then ([(renter_node, msg)], st)
                     else
                       (case get_prop (r_result resp) ''contract'' of
                          Inl e \<Rightarrow> ([(renter_node, msg)], st)
                        | Inr cj \<Rightarrow>
                           if \<not> truthy cj then ([(renter_node, msg)], st)
                           else
                             (case Contract_fromObject P cj of
                                Inl e \<Rightarrow> ([(renter_node, msg)], st)
                              | Inr final \<Rightarrow>
                                 if \<not> Contract_verify P final ''renter'' (renter_id c)
                                 then ([(renter_node, msg)], st)
                                 else
                                   (let loaded =
                                          (case manager_load E (manager st) (data_hash c) of
                                             Inl err \<Rightarrow> new_StorageItem (data_hash c)
                                           | Inr item \<Rightarrow> item);
                                        item = record_renter c renter_node loaded
                                    in ([(renter_node, msg)],
                                        st\<lparr>manager :=
                                             snd (manager_save E (manager st) item)\<rparr>))))))))"

text \<open>
  The iterator of \<^verbatim>\<open>async.each\<close> in \<^verbatim>\<open>join\<close>, with the callback of \<^verbatim>\<open>_node.connect\<close>:
  a seed that connects gets a ping timer of \<^verbatim>\<open>ms('1m')\<close>. Were that \<^verbatim>\<open>undefined\<close>, the
  assertion of \<^verbatim>\<open>_addPingInterval\<close> would throw inside the callback, after \<^verbatim>\<open>join\<close> has
  ended, and add no timer.
\<close>

definition connect_seed :: "prims \<Rightarrow> env \<Rightarrow> contact \<Rightarrow> network \<Rightarrow> network" where
  "connect_seed P E c st =
     (if connect E c then
        (case ms P ''1m'' of
           None \<Rightarrow> st
         | Some interval \<Rightarrow> addPingInterval st c interval)
      else st)"

text \<open>
  \<^verbatim>\<open>join(callback)\<close>. The seeds are mapped to contacts and the protocol is built before
  the assertion on \<^verbatim>\<open>_open\<close>. Each seed is connected to; \<^verbatim>\<open>next()\<close> is called without
  an error, so the final callback runs \<^verbatim>\<open>_farm()\<close> for a farmer and passes the instance.
  The connections answer after that; their effect on the state is folded in here, as
  no other field depends on it.
\<close>

definition join :: "prims \<Rightarrow> env \<Rightarrow> network \<Rightarrow> (failure + unit) \<times> network" where
  "join P E st =
     (case map_createContact P (seeds (options st)) of
        Inl e \<Rightarrow> (Inl (Thrown e), st)
      | Inr seed_contacts \<Rightarrow>
         if opened st
         then (Inl (Thrown (AssertionError ''Network interface already open'')), st)
         else
           (let st1 = st\<lparr>hooks := hooks st @
                            [On_error_handleTransportError, Before_serialize_signMessage,
                             Before_receive_verifyMessage, Before_receive_protocol],
                          node := True,
                          opened := True\<rparr>;
                st2 = fold (connect_seed P E) seed_contacts st1;
                st3 = (if farmer (options st2) then farm st2 else st2)
            in (Inr (), st3)))"

text \<open>
  \<^verbatim>\<open>leave(callback)\<close>: the timers are stopped, then \<^verbatim>\<open>this._node.disconnect\<close> is called,
  which throws while \<^verbatim>\<open>_node\<close> is \<^verbatim>\<open>undefined\<close>.
\<close>

definition leave :: "env \<Rightarrow> network \<Rightarrow> (failure + unit) \<times> network" where
  "leave E st =
     (case removePingInterval st None of
        Inl e \<Rightarrow> (Inl (Thrown e), st)
      | Inr st1 \<Rightarrow>
         if \<not> node st1 then (Inl (Thrown TypeError), st1)
         else
           (case disconnect E of
              Some err \<Rightarrow> (Inl (Passed err), st1)
            | None \<Rightarrow> (Inr (), st1)))"

subsection \<open>Histories of an instance\<close>

text \<open>
  One step of an instance: any of the operations above, with any arguments and any
  answers of the collaborators. The pending contract runs for an entry of
  \<^verbatim>\<open>_pendingContracts\<close>, as when an OFFER for that shard arrives, and the handler of
  \<^verbatim>\<open>_farm\<close> runs, on any published object, once it is subscribed.
\<close>

inductive step :: "prims \<Rightarrow> network \<Rightarrow> network \<Rightarrow> bool" for P :: prims where
  step_join: "step P st (snd (join P E st))"
| step_leave: "step P st (snd (leave E st))"
| step_store: "step P st (store P st data duration t1 t2)"
| step_offer: "map_of (pendingContracts st) h = Some p
     \<Longrightarrow> step P st (snd (snd (pending_contract P E st p farmer_node)))"
| step_audit: "step P st (snd (snd (audit P E st h)))"
| step_retrieve: "step P st (snd (snd (retrieve E st h)))"
| step_verify: "step P st (snd (verifyMessage P now st m c))"
| step_farm: "0 < subscriptions st \<Longrightarrow> step P st (snd (farm_handler P E st obj))"

inductive reachable :: "prims \<Rightarrow> network \<Rightarrow> network \<Rightarrow> bool"
  for P :: prims and st0 :: network where
  reach_init: "reachable P st0 st0"
| reach_step: "reachable P st0 st \<Longrightarrow> step P st st' \<Longrightarrow> reachable P st0 st'"

text \<open>The four maps of an item have the same keys; every stored item is such.\<close>

definition keys_identical :: "storage_item \<Rightarrow> bool" where
  "keys_identical item \<longleftrightarrow>
     fst ` set (contracts item) = fst ` set (trees item)
   \<and> fst ` set (trees item) = fst ` set (item_challenges item)
   \<and> fst ` set (item_challenges item) = fst ` set (meta item)"

definition items_ok :: "(string \<rightharpoonup> storage_item) \<Rightarrow> bool" where
  "items_ok mgr \<longleftrightarrow> (\<forall>item \<in> ran mgr. keys_identical item)"

text \<open>
  The item the pending contract loads for its shard, a new one when none loads, and the
  item it hands to \<^verbatim>\<open>_manager.save\<close>.
\<close>

definition loaded_item :: "env \<Rightarrow> network \<Rightarrow> pending \<Rightarrow> storage_item" where
  "loaded_item E st p =
     (case manager_load E (manager st) (p_shardHash p) of
        Inl err \<Rightarrow> new_StorageItem (p_shardHash p)
      | Inr item \<Rightarrow> item)"

definition consigned_item :: "env \<Rightarrow> network \<Rightarrow> pending \<Rightarrow> contact \<Rightarrow> storage_item" where
  "consigned_item E st p farmer_node = record_farmer p farmer_node (loaded_item E st p)"

text \<open>The seeds of an open instance have all been mapped to contacts once.\<close>

definition seeds_mapped :: "prims \<Rightarrow> network \<Rightarrow> bool" where
  "seeds_mapped P st \<longleftrightarrow>
     \<not> opened st \<or> (\<exists>cs. map_createContact P (seeds (options st)) = Inr cs)"

text \<open>An instance that is no farmer and has subscribed no handler.\<close>

definition renter_only :: "network \<Rightarrow> bool" where
  "renter_only st \<longleftrightarrow> \<not> farmer (options st) \<and> subscriptions st = 0"

subsection \<open>A small instance\<close>

text \<open>
  An instance of the parameters for the examples below. Its cryptography is a toy: a
  signature is its signer's public key in the clear, both hash functions are the
  identity, and a node ID stands for the bytes of its characters; so a message
  ``signed'' \<open>''K''\<close> verifies for the contact whose node ID is \<open>''K''\<close> and for no other.
\<close>

definition bytes_of :: "string \<Rightarrow> bytes" where
  "bytes_of s = map (\<lambda>c. of_nat (of_char c)) s"

definition hex_digit :: "nat \<Rightarrow> char" where
  "hex_digit n = ''0123456789abcdef'' ! n"

definition hex_of :: "bytes \<Rightarrow> string" where
  "hex_of b = concat (map (\<lambda>w. [hex_digit (unat w div 16), hex_digit (unat w mod 16)]) b)"

definition example_prims :: prims where
  "example_prims =
     \<lparr>NONCE_EXPIRE = 15000,
      sha256 = (\<lambda>b. b),
      ripemd160 = (\<lambda>b. b),
      to_hex = hex_of,
      fromPublicKeyHash = (\<lambda>n. Inr (bytes_of n)),
      magicHash = (\<lambda>t. bytes_of t),
      fromCompact = (\<lambda>s. case s of JStr k \<Rightarrow> Inr (bytes_of k) | _ \<Rightarrow> Inl TypeError),
      toPublicKey = (\<lambda>h s. Inr s),
      ecdsa_verify = (\<lambda>h s k. True),
      ms = (\<lambda>d. if d = ''1h'' then Some 3600000
                else if d = ''1m'' then Some 60000 else None),
      to_double = (\<lambda>q. q),
      greater_than_string = (\<lambda>n s. False),
      greater_than_sum = (\<lambda>n v. False),
      value_to_string = (\<lambda>v. ''[object Object]''),
      Contract_fromObject =
        (\<lambda>obj. case (get_prop obj ''renter_id'', get_prop obj ''data_hash'') of
                  (Inr (JStr r), Inr (JStr h)) \<Rightarrow>
                    Inr \<lparr>renter_id = r, data_size = 2, data_hash = h, store_begin = 1000,
                         store_end = Num 3601000, audit_count = 12, farmer_id = None,
                         payment_destination = None, farmer_signature = None,
                         renter_signature = Some r\<rparr>
                | _ \<Rightarrow> Inl (Error (JStr ''Invalid contract''))),
      Contract_toObject =
        (\<lambda>c. JObj [(''renter_id'', JStr (renter_id c)), (''data_hash'', JStr (data_hash c))]),
      Contract_sign = (\<lambda>r k c. c\<lparr>farmer_signature := Some k\<rparr>),
      Contract_verify = (\<lambda>c r n. renter_signature c = Some n),
      getAddress = (\<lambda>k. k),
      url_parse = (\<lambda>u. \<lparr>hostname = ''127.0.0.1'', url_port = 4001,
                          path = (if u = [] then None else Some (CHR ''/'' # u))\<rparr>),
      new_Audit = (\<lambda>n d. \<lparr>publicRecord = JArr [],
                            privateRecord = \<lparr>root = ''r'', depth = 2,
                                             challenges = take n [''c0'', ''c1'', ''c2'']\<rparr>\<rparr>),
      verification_verify = (\<lambda>p r d. Inr (p = JStr ''ok''))\<rparr>"

definition example_options :: options where
  "example_options =
     \<lparr>seeds = [''F''], opt_address = ''127.0.0.1'', opt_port = 4000, farmer = False\<rparr>"

definition example_network :: network where
  "example_network = Network example_options ''R'' Map.empty"

definition example_request :: "int \<Rightarrow> string \<Rightarrow> message" where
  "example_request n sig =
     \<lparr>msg_id = ''abc'',
      msg_body = Request \<lparr>nonce = JNum (of_int n), signature = JStr sig\<rparr>\<rparr>"

definition example_contact :: "string \<Rightarrow> contact" where
  "example_contact n = \<lparr>address = ''127.0.0.1'', port = 4001, nodeID = n\<rparr>"

text \<open>
  Collaborators that never fail: the lookup finds two nodes, and a peer answers an
  AUDIT with a proof, a RETRIEVE with the shard, a CONSIGN with a token and an OFFER
  with the contract it was sent.
\<close>

definition example_env :: env where
  "example_env =
     \<lparr>load_error = (\<lambda>h. None),
      not_found = Error (JStr ''not found''),
      save_error = (\<lambda>item. None),
      findNode = (\<lambda>k. Inr [example_contact ''E'', example_contact ''F'']),
      send = (\<lambda>c m. Inr \<lparr>r_error = JUndefined,
                             r_result = (case m of
                                           AUDIT h ch c' \<Rightarrow> JObj [(''proof'', JStr ''ok'')]
                                         | RETRIEVE h c' \<Rightarrow> JObj [(''data_shard'', JStr ''0102'')]
                                         | CONSIGN h d t c' \<Rightarrow> JObj [(''token'', JStr ''t'')]
                                         | OFFER obj c' \<Rightarrow> JObj [(''contract'', obj)])\<rparr>),
      connect = (\<lambda>c. True),
      disconnect = None\<rparr>"

text \<open>
  The renter \<open>''R''\<close> stores the two bytes 1, 2 for an hour; the farmer \<open>''F''\<close> offers and
  is consigned the shard. \<open>example_pending\<close> is the pending contract that \<open>store\<close>
  registers, \<open>example_item\<close> the item the renter has saved afterwards.
\<close>

definition example_pending :: pending where
  "example_pending =
     \<lparr>p_shardHash = ''0102'',
      p_contract = store_contract example_prims example_network [1, 2] ''1h'' 1000 1001,
      p_data = [1, 2],
      p_audit = new_Audit example_prims 12 [1, 2]\<rparr>"

definition example_renter :: network where
  "example_renter =
     snd (snd (pending_contract example_prims example_env
                 (store example_prims example_network [1, 2] ''1h'' 1000 1001)
                 example_pending (example_contact ''F'')))"

definition example_item :: storage_item where
  "example_item =
     \<lparr>hash = ''0102'',
      contracts = [(''F'', p_contract example_pending)],
      trees = [(''F'', JArr [])],
      item_challenges =
        [(''F'', \<lparr>root = ''r'', depth = 2, challenges = [''c0'', ''c1'', ''c2'']\<rparr>)],
      meta = [(''F'', JObj [])]\<rparr>"

text \<open>
  The same item with no challenge left for \<open>F\<close>, in the manager a renter is built
  with; collaborators whose farmer answers every request with a token only; and the
  instance after \<open>join\<close>.
\<close>

definition exhausted_item :: storage_item where
  "exhausted_item =
     example_item\<lparr>item_challenges :=
                    [(''F'', \<lparr>root = ''r'', depth = 2, challenges = []\<rparr>)]\<rparr>"

definition exhausted_renter :: network where
  "exhausted_renter = Network example_options ''R'' [''0102'' \<mapsto> exhausted_item]"

definition no_proof_env :: env where
  "no_proof_env =
     example_env\<lparr>send := (\<lambda>c m. Inr \<lparr>r_error = JUndefined,
                                          r_result = JObj [(''token'', JStr ''t'')]\<rparr>)\<rparr>"

definition example_joined :: network where
  "example_joined = snd (join example_prims example_env example_network)"

text \<open>
  A request whose nonce is sent as a string of digits, and an instance that is a
  farmer: it joins, the handler of \<open>farm\<close> receives the contract the renter \<open>''E''\<close>
  publishes for the shard \<open>''0102''\<close> and saves it, and then the instance stores the same
  shard itself and consigns it to \<open>''F''\<close>.
\<close>

definition stale_request :: message where
  "stale_request =
     \<lparr>msg_id = ''abc'',
      msg_body = Request \<lparr>nonce = JStr ''1000000'', signature = JStr ''K''\<rparr>\<rparr>"

definition example_farmer :: network where
  "example_farmer =
     snd (join example_prims example_env
            (Network (example_options\<lparr>farmer := True\<rparr>) ''R'' Map.empty))"

definition published_object :: json where
  "published_object = JObj [(''renter_id'', JStr ''E''), (''data_hash'', JStr ''0102'')]"

definition farmer_stub :: network where
  "farmer_stub = snd (farm_handler example_prims example_env example_farmer published_object)"

definition farmer_stored :: network where
  "farmer_stored = store example_prims farmer_stub [1, 2] ''1h'' 1000 1001"

definition farmer_consigned :: network where
  "farmer_consigned =
     snd (snd (pending_contract example_prims example_env farmer_stored example_pending
                 (example_contact ''F'')))"

definition offered_contract :: contract where
  "offered_contract =
     \<lparr>renter_id = ''E'', data_size = 2, data_hash = ''0102'', store_begin = 1000,
      store_end = Num 3601000, audit_count = 12, farmer_id = Some ''R'',
      payment_destination = Some ''R'', farmer_signature = Some ''R'',
      renter_signature = Some ''E''\<rparr>"

definition mixed_item :: storage_item where
  "mixed_item =
     \<lparr>hash = ''0102'',
      contracts = [(''E'', offered_contract), (''F'', p_contract example_pending)],
      trees = [(''F'', JArr [])],
      item_challenges =
        [(''F'', \<lparr>root = ''r'', depth = 2, challenges = [''c0'', ''c1'', ''c2'']\<rparr>)],
      meta = [(''E'', JObj []), (''F'', JObj [])]\<rparr>"

section \<open>Properties\<close>

subsection \<open>The instance\<close>

lemma example_store:
  "pendingContracts (store example_prims example_network [1, 2] ''1h'' 1000 1001)
     = [(''0102'', example_pending)]"
  by (simp add: store_def example_pending_def example_network_def Network_def Let_def
      rmd160sha256_def example_prims_def hex_of_def hex_digit_def)

lemma example_decimal: "decimal 15000 = ''15000''"
  by (simp add: decimal.simps digit_char_def)

lemma example_renter_manager: "manager example_renter = [''0102'' \<mapsto> example_item]"
  by (simp add: example_renter_def pending_contract_def Let_def example_env_def
      example_pending_def store_def example_network_def Network_def manager_load_def
      manager_save_def new_StorageItem_def record_farmer_def example_contact_def
      example_item_def example_prims_def)

lemma example_consign:
  "pending_contract example_prims example_env
     (store example_prims example_network [1, 2] ''1h'' 1000 1001)
     example_pending (example_contact ''F'')
   = (Inr ''0102'',
      [(example_contact ''F'',
        CONSIGN ''0102'' ''0102'' (JArr []) (self_contact example_network))],
      example_renter)"
  by (simp add: example_renter_def pending_contract_def Let_def example_env_def
      example_pending_def store_def example_network_def Network_def manager_load_def
      manager_save_def example_prims_def store_contract_def rmd160sha256_def
      hex_of_def hex_digit_def)

lemma example_accept:
  "verifyMessage example_prims 16000 example_network (example_request 1000 ''K'')
     (example_contact ''K'')
   = (Inr (), example_network\<lparr>pubkeys := [''K'' \<mapsto> bytes_of ''K'']\<rparr>)"
  by (simp add: verifyMessage_def example_prims_def example_request_def example_contact_def
      Message_verify_def example_network_def Network_def bytes_of_def)

lemma example_stale_accept:
  "verifyMessage example_prims 100000000 example_network stale_request (example_contact ''K'')
   = (Inr (), example_network\<lparr>pubkeys := [''K'' \<mapsto> bytes_of ''K'']\<rparr>)"
  by (simp add: verifyMessage_def example_prims_def stale_request_def example_contact_def
      Message_verify_def example_network_def Network_def bytes_of_def example_decimal
      digits_value_def digit_of_def)

lemma example_forged:
  "verifyMessage example_prims 16000 example_network (example_request 1000 ''Q'')
     (example_contact ''K'')
   = (Inl (Passed (Error (JStr ''Signature verification failed''))),
      example_network\<lparr>pubkeys := [''K'' \<mapsto> bytes_of ''Q'']\<rparr>)"
  by (simp add: verifyMessage_def example_prims_def example_request_def example_contact_def
      Message_verify_def example_network_def Network_def bytes_of_def)

lemma example_audit:
  "audit example_prims example_env example_renter ''0102''
     = (Inr True,
        [(example_contact ''F'', AUDIT ''0102'' (Some ''c0'') (self_contact example_renter))],
        example_renter)"
  by (simp add: audit_def manager_load_def example_renter_manager example_item_def Let_def
      example_env_def example_contact_def audit_response_def example_prims_def)

lemma exhausted_audit:
  "audit example_prims example_env exhausted_renter ''0102''
     = (Inr True,
        [(example_contact ''F'', AUDIT ''0102'' None (self_contact exhausted_renter))],
        exhausted_renter)"
  by (simp add: audit_def manager_load_def exhausted_renter_def exhausted_item_def
      example_item_def Let_def Network_def example_env_def example_contact_def
      audit_response_def example_prims_def)

lemma no_proof_audit:
  "audit example_prims no_proof_env example_renter ''0102''
     = (Inl (Passed (Error (JStr ''Invalid proof returned''))),
        [(example_contact ''F'', AUDIT ''0102'' (Some ''c0'') (self_contact example_renter))],
        example_renter)"
  by (simp add: audit_def manager_load_def example_renter_manager example_item_def Let_def
      no_proof_env_def example_env_def example_contact_def audit_response_def
      example_prims_def)

lemma no_shard_retrieve:
  "retrieve no_proof_env example_renter ''0102''
     = (Inl (Passed (Error (JStr ''Invalid shard returned''))),
        [(example_contact ''F'', RETRIEVE ''0102'' (self_contact example_renter))],
        example_renter)"
  by (simp add: retrieve_def manager_load_def example_renter_manager example_item_def Let_def
      no_proof_env_def example_env_def example_contact_def retrieve_response_def)

lemma example_joined_open: "opened example_joined \<and> node example_joined"
  by (simp add: example_joined_def join_def example_prims_def example_network_def
      Network_def example_options_def createContact_def Let_def example_env_def
      connect_seed_def addPingInterval_def)

lemma example_join_ok: "fst (join example_prims example_env example_network) = Inr ()"
  by (simp add: join_def example_prims_def example_network_def Network_def
      example_options_def createContact_def Let_def)

lemma example_joined_reachable: "reachable example_prims example_network example_joined"
  unfolding example_joined_def by (rule reach_step [OF reach_init step_join])

subsection \<open>The inbound hook\<close>

lemma expired_int: "expired P now (JNum (of_int n)) \<longleftrightarrow> now > int (NONCE_EXPIRE P) + n"
  by simp

text \<open>
  A nonce sent as the string of its digits gives the same signed text as the number.
\<close>

lemma nonce_string_digits:
  "\<bar>n\<bar> < 10 ^ 21 \<Longrightarrow> nonce_string P (JStr (show_int n)) = nonce_string P (JNum (of_int n))"
proof -
  assume "\<bar>n\<bar> < 10 ^ 21"
  then have "\<bar>of_int n :: rat\<bar> < 10 ^ 21"
    by (metis of_int_abs of_int_less_iff of_int_numeral of_int_power)
  then show ?thesis by simp
qed

text \<open>
  C2 (replay bound), as the code has it, for a nonce that is a whole number \<open>n\<close> of
  milliseconds. The hook passes the error \<open>Message signature expired\<close> exactly when
  \<open>now > n + NONCE_EXPIRE\<close>. So no message whose nonce is below \<open>now - NONCE_EXPIRE\<close> is
  accepted, and every accepted message has \<open>n \<ge> now - NONCE_EXPIRE\<close>; a nonce equal to
  \<open>now - NONCE_EXPIRE\<close> passes the test. Nothing is said here of a nonce that is not a
  number.
\<close>

theorem verifyMessage_freshness:
  assumes "envelope_of m = Inr e" and "nonce e = JNum (of_int n)"
  shows "(fst (verifyMessage P now st m c)
            = Inl (Passed (Error (JStr ''Message signature expired'')))
          \<longleftrightarrow> now > n + int (NONCE_EXPIRE P))
       \<and> (n < now - int (NONCE_EXPIRE P) \<longrightarrow> fst (verifyMessage P now st m c) \<noteq> Inr ())
       \<and> (fst (verifyMessage P now st m c) = Inr () \<longrightarrow> now - int (NONCE_EXPIRE P) \<le> n)"
  using assms
  by (auto simp: verifyMessage_def Let_def split: sum.splits if_splits)

theorem verifyMessage_freshness_witness:
  "envelope_of (example_request 2000 ''K'')
     = Inr \<lparr>nonce = JNum (of_int 2000), signature = JStr ''K''\<rparr>
   \<and> fst (verifyMessage example_prims 16000 example_network (example_request 2000 ''K'')
             (example_contact ''K'')) = Inr ()
   \<and> 16000 - int (NONCE_EXPIRE example_prims) \<le> (2000 :: int)
   \<and> fst (verifyMessage example_prims 17001 example_network (example_request 2000 ''K'')
             (example_contact ''K''))
       = Inl (Passed (Error (JStr ''Message signature expired'')))"
  using verifyMessage_freshness [of "example_request 2000 ''K''"
      "\<lparr>nonce = JNum (of_int 2000), signature = JStr ''K''\<rparr>" 2000 example_prims 16000
      example_network "example_contact ''K''"]
    verifyMessage_freshness [of "example_request 2000 ''K''"
      "\<lparr>nonce = JNum (of_int 2000), signature = JStr ''K''\<rparr>" 2000 example_prims 17001
      example_network "example_contact ''K''"]
  by (simp add: verifyMessage_def example_prims_def example_request_def example_contact_def
      Message_verify_def example_network_def Network_def bytes_of_def)

text \<open>
  C2 as stated fails twice. At the boundary: with \<open>NONCE_EXPIRE = 15000\<close> and
  \<open>now = 16000\<close>, a message whose nonce is \<open>1000 = now - NONCE_EXPIRE\<close> is accepted. And
  for a nonce sent as a string: the nonce \<open>''1000000''\<close> is appended to the digits of
  \<open>NONCE_EXPIRE\<close>, the test compares \<open>now = 100000000\<close> with 150001000000 and does not
  fire, the signed text is what it is for the number 1000000, and the message is
  accepted although \<open>1000000 \<le> now - NONCE_EXPIRE\<close>.
\<close>

theorem verifyMessage_boundary_accepted:
  "(1000 :: int) \<le> 16000 - int (NONCE_EXPIRE example_prims)
   \<and> envelope_of (example_request 1000 ''K'')
       = Inr \<lparr>nonce = JNum (of_int 1000), signature = JStr ''K''\<rparr>
   \<and> fst (verifyMessage example_prims 16000 example_network (example_request 1000 ''K'')
             (example_contact ''K'')) = Inr ()
   \<and> (1000000 :: int) \<le> 100000000 - int (NONCE_EXPIRE example_prims)
   \<and> envelope_of stale_request = Inr \<lparr>nonce = JStr ''1000000'', signature = JStr ''K''\<rparr>
   \<and> nonce_string example_prims (JStr ''1000000'')
       = nonce_string example_prims (JNum (of_int 1000000))
   \<and> fst (verifyMessage example_prims 100000000 example_network stale_request
             (example_contact ''K'')) = Inr ()"
  by (simp add: example_accept example_stale_accept)
     (simp add: example_prims_def example_request_def stale_request_def show_int_def
        decimal.simps digit_char_def)

text \<open>
  C3 (node-ID binding). If the hook succeeds, the key recovered from the compact
  signature over the message id and nonce hashes to the address of the contact's node
  ID: \<open>ripemd160 (sha256 pubkey)\<close> is the hash \<open>fromPublicKeyHash\<close> gives for
  \<open>contact.nodeID\<close>. And a fresh message whose recovered key hashes to anything else is
  rejected with \<open>Signature verification failed\<close>. Both rest on \<open>Message_verify\<close>, the
  library's check as the specification describes it.
\<close>

theorem verifyMessage_node_id_binding:
  "(fst (verifyMessage P now st m c) = Inr () \<longrightarrow>
      (\<exists>e addr signobj pubkey.
          envelope_of m = Inr e
        \<and> fromPublicKeyHash P (nodeID c) = Inr addr
        \<and> fromCompact P (signature e) = Inr signobj
        \<and> toPublicKey P (magicHash P (msg_id m @ nonce_string P (nonce e))) signobj
            = Inr pubkey
        \<and> ripemd160 P (sha256 P pubkey) = addr))
   \<and> (\<forall>e addr signobj pubkey.
          envelope_of m = Inr e
        \<and> \<not> expired P now (nonce e)
        \<and> fromPublicKeyHash P (nodeID c) = Inr addr
        \<and> fromCompact P (signature e) = Inr signobj
        \<and> toPublicKey P (magicHash P (msg_id m @ nonce_string P (nonce e))) signobj
            = Inr pubkey
        \<and> ripemd160 P (sha256 P pubkey) \<noteq> addr
        \<longrightarrow> fst (verifyMessage P now st m c)
              = Inl (Passed (Error (JStr ''Signature verification failed''))))"
  by (auto simp: verifyMessage_def Message_verify_def Let_def split: sum.splits if_splits)

theorem verifyMessage_node_id_binding_witness:
  "fst (verifyMessage example_prims 16000 example_network (example_request 1000 ''K'')
          (example_contact ''K'')) = Inr ()
   \<and> (\<exists>pubkey.
          toPublicKey example_prims
            (magicHash example_prims (''abc'' @ nonce_string example_prims (JNum (of_int 1000))))
            (bytes_of ''K'')
            = Inr pubkey
        \<and> Inr (ripemd160 example_prims (sha256 example_prims pubkey))
            = fromPublicKeyHash example_prims (nodeID (example_contact ''K'')))
   \<and> ripemd160 example_prims (sha256 example_prims (bytes_of ''Q''))
        \<noteq> bytes_of (nodeID (example_contact ''K''))
   \<and> fst (verifyMessage example_prims 16000 example_network (example_request 1000 ''Q'')
          (example_contact ''K''))
        = Inl (Passed (Error (JStr ''Signature verification failed'')))"
  using verifyMessage_node_id_binding [of example_prims 16000 example_network
      "example_request 1000 ''K''" "example_contact ''K''"]
    verifyMessage_node_id_binding [of example_prims 16000 example_network
      "example_request 1000 ''Q''" "example_contact ''K''"]
  by (simp add: example_accept example_forged)
     (simp add: example_prims_def example_request_def example_contact_def bytes_of_def)

text \<open>
  What the hook does to \<^verbatim>\<open>_pubkeys\<close>: nothing when the envelope is missing, the nonce
  expired, or the address, the signature or the key cannot be built; otherwise the
  recovered key is stored under the contact's node ID, whatever the verification says
  afterwards.
\<close>

lemma verifyMessage_pubkeys:
  "pubkeys (snd (verifyMessage P now st m c)) =
     (case envelope_of m of
        Inl e \<Rightarrow> pubkeys st
      | Inr ev \<Rightarrow>
         if expired P now (nonce ev) then pubkeys st
         else (case (fromPublicKeyHash P (nodeID c), fromCompact P (signature ev)) of
                 (Inr addr, Inr signobj) \<Rightarrow>
                   (case toPublicKey P (magicHash P (msg_id m @ nonce_string P (nonce ev)))
                           signobj of
                      Inl e \<Rightarrow> pubkeys st
                    | Inr pubkey \<Rightarrow> (pubkeys st)(nodeID c \<mapsto> pubkey))
               | _ \<Rightarrow> pubkeys st))"
  by (simp add: verifyMessage_def Let_def split: sum.splits)

text \<open>
  C8 (the key cache is filled on success only), evaluated on the code: the assignment
  to \<^verbatim>\<open>_pubkeys\<close> comes before the verification. A fresh request that claims the node
  ID \<open>K\<close> and is signed by \<open>Q\<close> is rejected with \<open>Signature verification failed\<close>, and the
  cache, which had no entry for \<open>K\<close>, now holds the key of \<open>Q\<close> under \<open>K\<close>.
\<close>

theorem verifyMessage_caches_unverified_key:
  "fst (verifyMessage example_prims 16000 example_network (example_request 1000 ''Q'')
          (example_contact ''K''))
     = Inl (Passed (Error (JStr ''Signature verification failed'')))
   \<and> pubkeys example_network ''K'' = None
   \<and> pubkeys (snd (verifyMessage example_prims 16000 example_network
                      (example_request 1000 ''Q'') (example_contact ''K''))) ''K''
     = Some (bytes_of ''Q'')"
  by (simp add: example_forged) (simp add: example_network_def Network_def)

subsection \<open>Audits and retrievals\<close>

lemma audit_state_unchanged: "snd (snd (audit P E st h)) = st"
  by (simp add: audit_def Let_def split: sum.splits option.splits)

lemma retrieve_state_unchanged: "snd (snd (retrieve E st h)) = st"
  by (simp add: retrieve_def Let_def split: sum.splits option.splits)

text \<open>
  The one request an audit sends carries the head of the challenge list the manager
  stores for the farmer; with \<open>audit_state_unchanged\<close>, the next audit finds the same
  list.
\<close>

lemma audit_sends_head:
  assumes "fst (snd (audit P E st h)) = [(farmer_node, msg)]"
  shows "\<exists>item a. manager_load E (manager st) h = Inr item
           \<and> map_of (item_challenges item) (nodeID farmer_node) = Some a
           \<and> msg = AUDIT h (first (challenges a)) (self_contact st)"
  using assms
  by (auto simp: audit_def Let_def split: sum.splits option.splits)

text \<open>
  C1 (challenge freshness), evaluated on the code: no audit pops a challenge or saves
  the item. The renter of the instance holds the challenges \<open>c0, c1, c2\<close> for the farmer
  \<open>F\<close>. Its first audit sends \<open>c0\<close>; the second audit, run on the state the first one
  leaves, sends \<open>c0\<close> again; and the item the manager stores still holds all three
  challenges.
\<close>

theorem audit_reuses_challenge:
  "fst (snd (audit example_prims example_env example_renter ''0102''))
     = [(example_contact ''F'', AUDIT ''0102'' (Some ''c0'') (self_contact example_renter))]
   \<and> fst (snd (audit example_prims example_env
                  (snd (snd (audit example_prims example_env example_renter ''0102'')))
                  ''0102''))
     = [(example_contact ''F'', AUDIT ''0102'' (Some ''c0'') (self_contact example_renter))]
   \<and> manager (snd (snd (audit example_prims example_env example_renter ''0102''))) ''0102''
     = Some example_item
   \<and> map_of (item_challenges example_item) ''F''
     = Some \<lparr>root = ''r'', depth = 2, challenges = [''c0'', ''c1'', ''c2'']\<rparr>"
  by (simp add: audit_state_unchanged example_audit example_renter_manager)
     (simp add: example_item_def)

text \<open>
  C7 (exhausted challenges), as the code has it. When the item loads, the farmer is
  found and its challenge list is empty, \<open>audit\<close> still hands one AUDIT request to the
  transport, with no challenge in it, and its outcome is the transport's error or what
  the response gives; the state is unchanged. No outcome of \<open>audit\<close> is an error for
  exhausted challenges.
\<close>

theorem audit_empty_challenges:
  assumes "manager_load E (manager st) h = Inr item"
    and "findNode E (first_key (contracts item)) = Inr nodes"
    and "first (filter (\<lambda>n. Some (nodeID n) = first_key (contracts item)) nodes)
           = Some farmer_node"
    and "map_of (item_challenges item) (nodeID farmer_node) = Some a"
    and "challenges a = []"
  shows "audit P E st h =
           ((case send E farmer_node (AUDIT h None (self_contact st)) of
               Inl err \<Rightarrow> Inl (Passed err)
             | Inr resp \<Rightarrow> audit_response P a resp),
            [(farmer_node, AUDIT h None (self_contact st))], st)"
  using assms by (simp add: audit_def Let_def split: sum.splits)

theorem audit_empty_challenges_witness:
  "manager_load example_env (manager exhausted_renter) ''0102'' = Inr exhausted_item
   \<and> challenges \<lparr>root = ''r'', depth = 2, challenges = []\<rparr> = []
   \<and> audit example_prims example_env exhausted_renter ''0102''
       = (Inr True,
          [(example_contact ''F'', AUDIT ''0102'' None (self_contact exhausted_renter))],
          exhausted_renter)"
  using audit_empty_challenges [of example_env exhausted_renter "''0102''" exhausted_item
      "[example_contact ''E'', example_contact ''F'']" "example_contact ''F''"
      "\<lparr>root = ''r'', depth = 2, challenges = []\<rparr>" example_prims]
  by (simp add: exhausted_audit)
     (simp add: manager_load_def exhausted_renter_def Network_def example_env_def)

text \<open>
  C7 as stated fails: the stored item has no challenge left for the farmer \<open>F\<close>, and
  the audit sends an AUDIT request and reports the verdict \<open>True\<close>.
\<close>

theorem audit_exhausted_still_sends:
  "map_of (item_challenges exhausted_item) ''F''
     = Some \<lparr>root = ''r'', depth = 2, challenges = []\<rparr>
   \<and> manager exhausted_renter ''0102'' = Some exhausted_item
   \<and> fst (audit example_prims example_env exhausted_renter ''0102'') = Inr True
   \<and> fst (snd (audit example_prims example_env exhausted_renter ''0102''))
       = [(example_contact ''F'', AUDIT ''0102'' None (self_contact exhausted_renter))]"
  by (simp add: exhausted_audit) (simp add: exhausted_item_def exhausted_renter_def Network_def)

lemma truthy_get_prop: "truthy v \<Longrightarrow> \<exists>x. get_prop v k = Inr x"
  by (cases v) simp_all

lemma audit_response_no_proof:
  assumes "get_prop (r_result resp) ''proof'' = Inr JUndefined"
  shows "\<exists>e. audit_response P a resp = Inl (Passed e)
            \<and> (\<not> truthy (r_error resp) \<longrightarrow> e = Error (JStr ''Invalid proof returned''))"
proof (cases "truthy (r_error resp)")
  case True
  then obtain x where "get_prop (r_error resp) ''message'' = Inr x"
    using truthy_get_prop by blast
  with True show ?thesis by (simp add: audit_response_def)
next
  case False
  with assms show ?thesis by (simp add: audit_response_def)
qed

lemma retrieve_response_no_shard:
  assumes "get_prop (r_result resp) ''data_shard'' = Inr JUndefined"
  shows "\<exists>e. retrieve_response resp = Inl (Passed e)
            \<and> (\<not> truthy (r_error resp) \<longrightarrow> e = Error (JStr ''Invalid shard returned''))"
proof (cases "truthy (r_error resp)")
  case True
  then obtain x where "get_prop (r_error resp) ''message'' = Inr x"
    using truthy_get_prop by blast
  with True show ?thesis by (simp add: retrieve_response_def)
next
  case False
  with assms show ?thesis by (simp add: retrieve_response_def)
qed

lemma audit_sent:
  assumes "fst (snd (audit P E st h)) = [(farmer_node, msg)]"
    and "send E farmer_node msg = Inr resp"
  shows "\<exists>a. fst (audit P E st h) = audit_response P a resp"
  using assms
  by (auto simp: audit_def Let_def split: sum.splits option.splits)

lemma retrieve_sent:
  assumes "fst (snd (retrieve E st h)) = [(farmer_node, msg)]"
    and "send E farmer_node msg = Inr resp"
  shows "fst (retrieve E st h) = retrieve_response resp"
  using assms
  by (auto simp: retrieve_def Let_def split: sum.splits option.splits)

text \<open>
  C9 (malformed results). When \<open>audit\<close> has sent its request and the transport hands
  back a response whose result has no \<open>proof\<close>, the operation passes an error to its
  callback and no verdict: the error \<open>Invalid proof returned\<close>, unless the response also
  carries an error of its own, whose message is passed instead. The same holds for
  \<open>retrieve\<close>, \<open>data_shard\<close> and \<open>Invalid shard returned\<close>. (A response with no error
  and no result at all has no result to lack the field: reading the field throws.)
\<close>

theorem missing_field_is_error:
  "(fst (snd (audit P E st h)) = [(farmer_node, msg)]
      \<and> send E farmer_node msg = Inr resp
      \<and> get_prop (r_result resp) ''proof'' = Inr JUndefined
    \<longrightarrow> (\<exists>e. fst (audit P E st h) = Inl (Passed e)
            \<and> (\<not> truthy (r_error resp) \<longrightarrow> e = Error (JStr ''Invalid proof returned''))))
   \<and> (fst (snd (retrieve E st h)) = [(farmer_node, msg)]
      \<and> send E farmer_node msg = Inr resp
      \<and> get_prop (r_result resp) ''data_shard'' = Inr JUndefined
    \<longrightarrow> (\<exists>e. fst (retrieve E st h) = Inl (Passed e)
            \<and> (\<not> truthy (r_error resp) \<longrightarrow> e = Error (JStr ''Invalid shard returned''))))"
proof (intro conjI impI)
  assume a: "fst (snd (audit P E st h)) = [(farmer_node, msg)]
      \<and> send E farmer_node msg = Inr resp
      \<and> get_prop (r_result resp) ''proof'' = Inr JUndefined"
  then obtain a' where "fst (audit P E st h) = audit_response P a' resp"
    using audit_sent by blast
  with a show "\<exists>e. fst (audit P E st h) = Inl (Passed e)
            \<and> (\<not> truthy (r_error resp) \<longrightarrow> e = Error (JStr ''Invalid proof returned''))"
    using audit_response_no_proof [of resp P a'] by simp
next
  assume r: "fst (snd (retrieve E st h)) = [(farmer_node, msg)]
      \<and> send E farmer_node msg = Inr resp
      \<and> get_prop (r_result resp) ''data_shard'' = Inr JUndefined"
  then have "fst (retrieve E st h) = retrieve_response resp"
    using retrieve_sent by blast
  with r show "\<exists>e. fst (retrieve E st h) = Inl (Passed e)
            \<and> (\<not> truthy (r_error resp) \<longrightarrow> e = Error (JStr ''Invalid shard returned''))"
    using retrieve_response_no_shard [of resp] by simp
qed

theorem missing_field_is_error_witness:
  "send no_proof_env (example_contact ''F'')
       (AUDIT ''0102'' (Some ''c0'') (self_contact example_renter))
     = Inr \<lparr>r_error = JUndefined, r_result = JObj [(''token'', JStr ''t'')]\<rparr>
   \<and> send no_proof_env (example_contact ''F'')
       (RETRIEVE ''0102'' (self_contact example_renter))
     = Inr \<lparr>r_error = JUndefined, r_result = JObj [(''token'', JStr ''t'')]\<rparr>
   \<and> get_prop (JObj [(''token'', JStr ''t'')]) ''proof'' = Inr JUndefined
   \<and> get_prop (JObj [(''token'', JStr ''t'')]) ''data_shard'' = Inr JUndefined
   \<and> fst (audit example_prims no_proof_env example_renter ''0102'')
       = Inl (Passed (Error (JStr ''Invalid proof returned'')))
   \<and> fst (retrieve no_proof_env example_renter ''0102'')
       = Inl (Passed (Error (JStr ''Invalid shard returned'')))"
  using missing_field_is_error [of example_prims no_proof_env example_renter "''0102''"
      "example_contact ''F''" "AUDIT ''0102'' (Some ''c0'') (self_contact example_renter)"
      "\<lparr>r_error = JUndefined, r_result = JObj [(''token'', JStr ''t'')]\<rparr>"]
    missing_field_is_error [of example_prims no_proof_env example_renter "''0102''"
      "example_contact ''F''" "RETRIEVE ''0102'' (self_contact example_renter)"
      "\<lparr>r_error = JUndefined, r_result = JObj [(''token'', JStr ''t'')]\<rparr>"]
  by (simp add: no_proof_audit no_shard_retrieve) (simp add: no_proof_env_def example_env_def)

subsection \<open>Storing a shard\<close>

text \<open>
  C5 (the published contract), as the code has it. For a duration that \<^verbatim>\<open>ms\<close> reads as
  \<open>d\<close> milliseconds, \<open>store\<close> publishes, and keeps in the pending contract under the
  shard hash, the contract with the renter's node ID, the length of the data, the hash
  \<open>ripemd160 (sha256 data)\<close> in hex, 12 audits, and two readings of the clock:
  \<open>store_begin\<close> is the value \<open>t1\<close> of the first call of \<^verbatim>\<open>Date.now()\<close>, and \<open>store_end\<close> is
  the value \<open>t2\<close> of the second call plus \<open>d\<close>, as JavaScript adds them: exactly, when
  the sum is an integer that a double holds. No other field is set.
\<close>

theorem store_contract_fields:
  assumes "ms P duration = Some d"
  shows "published (store P st data duration t1 t2) = published st @
           [\<lparr>renter_id = keypair_nodeID st,
             data_size = length data,
             data_hash = to_hex P (ripemd160 P (sha256 P data)),
             store_begin = t1,
             store_end = Num (js_add P (of_int t2) d),
             audit_count = 12,
             farmer_id = None,
             payment_destination = None,
             farmer_signature = None,
             renter_signature = None\<rparr>]
       \<and> map_option p_contract
           (map_of (pendingContracts (store P st data duration t1 t2))
              (to_hex P (ripemd160 P (sha256 P data))))
         = Some \<lparr>renter_id = keypair_nodeID st,
             data_size = length data,
             data_hash = to_hex P (ripemd160 P (sha256 P data)),
             store_begin = t1,
             store_end = Num (js_add P (of_int t2) d),
             audit_count = 12,
             farmer_id = None,
             payment_destination = None,
             farmer_signature = None,
             renter_signature = None\<rparr>
       \<and> (is_safe_int (of_int t2 + d) \<longrightarrow> js_add P (of_int t2) d = of_int t2 + d)"
  using assms
  by (simp add: store_def Let_def store_contract_def rmd160sha256_def update_conv' js_add_def)

theorem store_contract_fields_witness:
  "ms example_prims ''1h'' = Some 3600000
   \<and> is_safe_int (of_int 1001 + 3600000)
   \<and> published (store example_prims example_network [1, 2] ''1h'' 1000 1001) =
       [\<lparr>renter_id = ''R'', data_size = 2, data_hash = ''0102'', store_begin = 1000,
         store_end = Num 3601001, audit_count = 12, farmer_id = None,
         payment_destination = None, farmer_signature = None, renter_signature = None\<rparr>]"
  using store_contract_fields [of example_prims "''1h''" 3600000 example_network "[1, 2]"
      1000 1001]
  by (simp add: example_prims_def example_network_def Network_def hex_of_def hex_digit_def
      js_add_def is_safe_int_def)

text \<open>
  C5 as stated fails: it has one \<open>now\<close> for both fields. With the clock at 1000 for the
  first call and at 1001 for the second, the contract published for one hour
  (3600000 ms) begins at 1000 and ends at 3601001, which is not its beginning plus the
  duration.
\<close>

theorem store_reads_clock_twice:
  "ms example_prims ''1h'' = Some 3600000
   \<and> store_begin (last (published (store example_prims example_network [1, 2] ''1h''
                                     1000 1001))) = 1000
   \<and> store_end (last (published (store example_prims example_network [1, 2] ''1h''
                                   1000 1001))) = Num 3601001
   \<and> store_end (last (published (store example_prims example_network [1, 2] ''1h''
                                   1000 1001)))
       \<noteq> Num (of_int (store_begin (last (published
                  (store example_prims example_network [1, 2] ''1h'' 1000 1001))))
              + 3600000)"
  by (simp add: store_def store_contract_def Let_def example_prims_def example_network_def
      Network_def js_add_def is_safe_int_def)

lemma keys_identical_new: "keys_identical (new_StorageItem h)"
  by (simp add: keys_identical_def new_StorageItem_def)

lemma keys_identical_record_farmer:
  "keys_identical item \<Longrightarrow> keys_identical (record_farmer p farmer_node item)"
  by (simp add: keys_identical_def record_farmer_def dom_update)

lemma record_farmer_keys:
  "nodeID farmer_node \<in> fst ` set (contracts (record_farmer p farmer_node item))
   \<and> nodeID farmer_node \<in> fst ` set (trees (record_farmer p farmer_node item))
   \<and> nodeID farmer_node \<in> fst ` set (item_challenges (record_farmer p farmer_node item))
   \<and> nodeID farmer_node \<in> fst ` set (meta (record_farmer p farmer_node item))"
  by (simp add: record_farmer_def dom_update)

lemma items_ok_update:
  "items_ok mgr \<Longrightarrow> keys_identical item \<Longrightarrow> items_ok (mgr(k \<mapsto> item))"
  by (auto simp: items_ok_def ran_def)

lemma manager_load_items_ok:
  "items_ok mgr \<Longrightarrow> manager_load E mgr h = Inr item \<Longrightarrow> keys_identical item"
  by (auto simp: manager_load_def items_ok_def ran_def split: option.splits)

lemma loaded_item_ok: "items_ok (manager st) \<Longrightarrow> keys_identical (loaded_item E st p)"
  by (auto simp: loaded_item_def split: sum.splits
      intro!: keys_identical_new manager_load_items_ok)

lemma consigned_item_ok:
  "items_ok (manager st) \<Longrightarrow> keys_identical (consigned_item E st p farmer_node)"
  by (simp add: consigned_item_def keys_identical_record_farmer loaded_item_ok)

lemma pending_contract_success:
  assumes "pending_contract P E st p farmer_node = (Inr h, sent, st')"
  shows "h = p_shardHash p
       \<and> st' = st\<lparr>manager := (manager st)(hash (consigned_item E st p farmer_node)
                                  \<mapsto> consigned_item E st p farmer_node)\<rparr>"
  using assms
  by (auto simp: pending_contract_def consigned_item_def loaded_item_def manager_save_def
      Let_def split: sum.splits if_splits option.splits)

lemma pending_contract_manager:
  "manager (snd (snd (pending_contract P E st p farmer_node))) = manager st
   \<or> manager (snd (snd (pending_contract P E st p farmer_node)))
      = (manager st)(hash (consigned_item E st p farmer_node)
                        \<mapsto> consigned_item E st p farmer_node)"
  by (auto simp: pending_contract_def consigned_item_def loaded_item_def manager_save_def
      Let_def split: sum.splits if_splits option.splits)

subsection \<open>What the operations leave alone\<close>

lemma connect_seed_frame:
  "options (connect_seed P E c st) = options st
   \<and> opened (connect_seed P E c st) = opened st
   \<and> manager (connect_seed P E c st) = manager st
   \<and> subscriptions (connect_seed P E c st) = subscriptions st"
  by (simp add: connect_seed_def addPingInterval_def split: option.splits)

lemma connect_seed_fold_frame:
  "options (fold (connect_seed P E) cs s0) = options s0
   \<and> opened (fold (connect_seed P E) cs s0) = opened s0
   \<and> manager (fold (connect_seed P E) cs s0) = manager s0
   \<and> subscriptions (fold (connect_seed P E) cs s0) = subscriptions s0"
  by (induction cs arbitrary: s0) (simp_all add: connect_seed_frame)

lemma join_frame:
  "options (snd (join P E st)) = options st \<and> manager (snd (join P E st)) = manager st"
  by (simp add: join_def Let_def farm_def connect_seed_fold_frame split: sum.splits)

lemma join_subscriptions:
  "\<not> farmer (options st) \<Longrightarrow> subscriptions (snd (join P E st)) = subscriptions st"
  by (simp add: join_def Let_def farm_def connect_seed_fold_frame split: sum.splits)

lemma join_opened:
  "opened (snd (join P E st)) \<longleftrightarrow>
     opened st \<or> (\<exists>cs. map_createContact P (seeds (options st)) = Inr cs)"
  by (auto simp: join_def Let_def farm_def connect_seed_fold_frame split: sum.splits)

lemma join_already_open:
  assumes "opened st" and "map_createContact P (seeds (options st)) = Inr cs"
  shows "join P E st = (Inl (Thrown (AssertionError ''Network interface already open'')), st)"
  using assms by (simp add: join_def)

lemma createContact_error: "createContact P uri = Inl e \<Longrightarrow> e = TypeError"
  by (simp add: createContact_def Let_def split: option.splits)

lemma map_createContact_error: "map_createContact P uris = Inl e \<Longrightarrow> e = TypeError"
  by (induction uris arbitrary: e) (auto split: sum.splits dest: createContact_error)

lemma join_fresh:
  "fst (join P E (Network opts kp mgr))
     \<noteq> Inl (Thrown (AssertionError ''Network interface already open''))"
  by (auto simp: join_def Network_def Let_def split: sum.splits dest: map_createContact_error)

lemma leave_frame:
  "options (snd (leave E st)) = options st
   \<and> opened (snd (leave E st)) = opened st
   \<and> manager (snd (leave E st)) = manager st
   \<and> subscriptions (snd (leave E st)) = subscriptions st"
  by (auto simp: leave_def removePingInterval_def split: sum.splits option.splits)

lemma store_frame:
  "options (store P st data duration t1 t2) = options st
   \<and> opened (store P st data duration t1 t2) = opened st
   \<and> manager (store P st data duration t1 t2) = manager st
   \<and> subscriptions (store P st data duration t1 t2) = subscriptions st"
  by (simp add: store_def Let_def)

lemma pending_contract_frame:
  "options (snd (snd (pending_contract P E st p farmer_node))) = options st
   \<and> opened (snd (snd (pending_contract P E st p farmer_node))) = opened st
   \<and> subscriptions (snd (snd (pending_contract P E st p farmer_node))) = subscriptions st"
  by (simp add: pending_contract_def manager_save_def Let_def
      split: sum.splits option.splits prod.splits)

lemma verifyMessage_frame:
  "options (snd (verifyMessage P now st m c)) = options st
   \<and> opened (snd (verifyMessage P now st m c)) = opened st
   \<and> manager (snd (verifyMessage P now st m c)) = manager st
   \<and> subscriptions (snd (verifyMessage P now st m c)) = subscriptions st"
  by (simp add: verifyMessage_def Let_def split: sum.splits)

lemma farm_handler_frame:
  "options (snd (farm_handler P E st obj)) = options st
   \<and> opened (snd (farm_handler P E st obj)) = opened st
   \<and> subscriptions (snd (farm_handler P E st obj)) = subscriptions st"
  by (simp add: farm_handler_def Let_def split: sum.splits option.splits)

subsection \<open>Invariants of an instance's history\<close>

lemma step_opened: "step P st st' \<Longrightarrow> opened st \<Longrightarrow> opened st'"
  by (induction rule: step.induct)
     (simp_all add: join_opened leave_frame store_frame pending_contract_frame
        audit_state_unchanged retrieve_state_unchanged verifyMessage_frame
        farm_handler_frame)

lemma step_seeds_mapped: "step P st st' \<Longrightarrow> seeds_mapped P st \<Longrightarrow> seeds_mapped P st'"
  by (induction rule: step.induct)
     (auto simp: seeds_mapped_def join_opened join_frame leave_frame store_frame
        pending_contract_frame audit_state_unchanged retrieve_state_unchanged
        verifyMessage_frame farm_handler_frame)

lemma step_renter_only: "step P st st' \<Longrightarrow> renter_only st \<Longrightarrow> renter_only st'"
  by (induction rule: step.induct)
     (simp_all add: renter_only_def join_frame join_subscriptions leave_frame store_frame
        pending_contract_frame audit_state_unchanged retrieve_state_unchanged
        verifyMessage_frame)

lemma step_items_ok:
  "step P st st' \<Longrightarrow> renter_only st \<Longrightarrow> items_ok (manager st) \<Longrightarrow> items_ok (manager st')"
proof (induction rule: step.induct)
  case (step_offer st h p E farmer_node)
  have "items_ok ((manager st)(hash (consigned_item E st p farmer_node)
                               \<mapsto> consigned_item E st p farmer_node))"
    using step_offer(3) by (intro items_ok_update consigned_item_ok)
  with step_offer(3) show ?case
    using pending_contract_manager [of P E st p farmer_node] by metis
next
  case (step_farm st E obj)
  then show ?case by (simp add: renter_only_def)
qed (simp_all add: join_frame leave_frame store_frame
        audit_state_unchanged retrieve_state_unchanged verifyMessage_frame)

lemma reachable_trans:
  "reachable P st1 st2 \<Longrightarrow> reachable P st0 st1 \<Longrightarrow> reachable P st0 st2"
  by (induction rule: reachable.induct) (auto intro: reachable.intros)

lemma reachable_opened: "reachable P st0 st \<Longrightarrow> opened st0 \<Longrightarrow> opened st"
  by (induction rule: reachable.induct) (auto dest: step_opened)

lemma reachable_seeds_mapped:
  "reachable P st0 st \<Longrightarrow> seeds_mapped P st0 \<Longrightarrow> seeds_mapped P st"
  by (induction rule: reachable.induct) (auto dest: step_seeds_mapped)

lemma reachable_items_ok:
  "reachable P st0 st \<Longrightarrow> renter_only st0 \<Longrightarrow> items_ok (manager st0)
     \<Longrightarrow> renter_only st \<and> items_ok (manager st)"
  by (induction rule: reachable.induct) (auto dest: step_items_ok step_renter_only)

lemma manager_Network: "manager (Network opts kp mgr) = mgr"
  by (simp add: Network_def)

lemma renter_only_Network: "\<not> farmer opts \<Longrightarrow> renter_only (Network opts kp mgr)"
  by (simp add: renter_only_def Network_def)

lemma seeds_mapped_Network: "seeds_mapped P (Network opts kp mgr)"
  by (simp add: seeds_mapped_def Network_def)

lemma reachable_join_already_open:
  assumes "reachable P (Network opts kp mgr) st" and "opened st"
  shows "join P E st = (Inl (Thrown (AssertionError ''Network interface already open'')), st)"
proof -
  have "seeds_mapped P st"
    using assms(1) seeds_mapped_Network by (rule reachable_seeds_mapped)
  with assms(2) obtain cs where "map_createContact P (seeds (options st)) = Inr cs"
    by (auto simp: seeds_mapped_def)
  with assms(2) show ?thesis by (rule join_already_open)
qed

subsection \<open>The farmer's side of the same manager\<close>

lemma example_farmer_fields:
  "manager example_farmer = Map.empty \<and> keypair_nodeID example_farmer = ''R''
   \<and> subscriptions example_farmer = 1 \<and> pendingContracts example_farmer = []"
  by (simp add: example_farmer_def join_def example_prims_def Network_def
      example_options_def createContact_def Let_def example_env_def connect_seed_def
      addPingInterval_def farm_def)

lemma farmer_stub_fields:
  "manager farmer_stub
     = [''0102'' \<mapsto> \<lparr>hash = ''0102'', contracts = [(''E'', offered_contract)], trees = [],
                       item_challenges = [], meta = [(''E'', JObj [])]\<rparr>]
   \<and> keypair_nodeID farmer_stub = ''R'' \<and> pendingContracts farmer_stub = []"
  by (simp add: farmer_stub_def farm_handler_def example_farmer_fields published_object_def
      example_prims_def example_env_def example_contact_def Let_def manager_load_def
      manager_save_def new_StorageItem_def record_renter_def offered_contract_def)

lemma farmer_stored_pending: "pendingContracts farmer_stored = [(''0102'', example_pending)]"
  by (simp add: farmer_stored_def store_def store_contract_def farmer_stub_fields
      example_pending_def example_network_def Network_def Let_def rmd160sha256_def
      example_prims_def hex_of_def hex_digit_def)

lemma farmer_stored_manager: "manager farmer_stored = manager farmer_stub"
  by (simp add: farmer_stored_def store_frame)

lemma farmer_consign:
  "fst (pending_contract example_prims example_env farmer_stored example_pending
          (example_contact ''F'')) = Inr ''0102''
   \<and> manager farmer_consigned = [''0102'' \<mapsto> mixed_item]"
  by (simp add: farmer_consigned_def pending_contract_def Let_def example_env_def
      manager_load_def manager_save_def farmer_stored_manager farmer_stub_fields
      record_farmer_def example_contact_def mixed_item_def example_pending_def
      example_prims_def)

lemma farmer_stored_reachable:
  "reachable example_prims (Network (example_options\<lparr>farmer := True\<rparr>) ''R'' Map.empty)
     farmer_stored"
proof -
  have "reachable example_prims (Network (example_options\<lparr>farmer := True\<rparr>) ''R'' Map.empty)
          example_farmer"
    unfolding example_farmer_def by (rule reach_step [OF reach_init step_join])
  moreover have "step example_prims example_farmer farmer_stub"
    unfolding farmer_stub_def by (rule step_farm) (simp add: example_farmer_fields)
  ultimately have "reachable example_prims
      (Network (example_options\<lparr>farmer := True\<rparr>) ''R'' Map.empty) farmer_stub"
    by (rule reach_step)
  then show ?thesis
    unfolding farmer_stored_def using step_store by (rule reach_step)
qed

subsection \<open>Identical key sets\<close>

text \<open>
  C6 (identical key sets), as the code has it. When the pending contract ends with the
  shard hash, the manager holds the item it saved under the item's hash, and that item
  has the farmer's node ID as a key of \<open>contracts\<close>, \<open>trees\<close>, \<open>challenges\<close> and \<open>meta\<close>.
  Its four key sets are identical when those of the item loaded for the shard were (a
  new item when none loads). On an instance that is no farmer and was built with a
  manager whose items all have identical key sets (an empty manager is one), they were,
  at any point of its history, and every item the manager holds afterwards has
  identical key sets.
\<close>

theorem consign_keys_identical:
  assumes "pending_contract P E st p farmer_node = (Inr h, sent, st')"
  shows "manager st' (hash (consigned_item E st p farmer_node))
           = Some (consigned_item E st p farmer_node)
       \<and> nodeID farmer_node \<in> fst ` set (contracts (consigned_item E st p farmer_node))
       \<and> nodeID farmer_node \<in> fst ` set (trees (consigned_item E st p farmer_node))
       \<and> nodeID farmer_node \<in> fst ` set (item_challenges (consigned_item E st p farmer_node))
       \<and> nodeID farmer_node \<in> fst ` set (meta (consigned_item E st p farmer_node))
       \<and> (keys_identical (loaded_item E st p)
            \<longrightarrow> keys_identical (consigned_item E st p farmer_node))
       \<and> (items_ok mgr \<and> \<not> farmer opts \<and> reachable P (Network opts kp mgr) st
            \<longrightarrow> keys_identical (consigned_item E st p farmer_node)
                \<and> items_ok (manager st'))"
proof -
  let ?item = "consigned_item E st p farmer_node"
  have st': "st' = st\<lparr>manager := (manager st)(hash ?item \<mapsto> ?item)\<rparr>"
    using pending_contract_success [OF assms] by simp
  have saved: "manager st' (hash ?item) = Some ?item"
    by (simp add: st')
  have keys: "nodeID farmer_node \<in> fst ` set (contracts ?item)
       \<and> nodeID farmer_node \<in> fst ` set (trees ?item)
       \<and> nodeID farmer_node \<in> fst ` set (item_challenges ?item)
       \<and> nodeID farmer_node \<in> fst ` set (meta ?item)"
    unfolding consigned_item_def by (rule record_farmer_keys)
  have local: "keys_identical (loaded_item E st p) \<longrightarrow> keys_identical ?item"
    by (simp add: consigned_item_def keys_identical_record_farmer)
  have global: "items_ok mgr \<and> \<not> farmer opts \<and> reachable P (Network opts kp mgr) st
            \<longrightarrow> keys_identical ?item \<and> items_ok (manager st')"
  proof
    assume a: "items_ok mgr \<and> \<not> farmer opts \<and> reachable P (Network opts kp mgr) st"
    then have "items_ok (manager st)"
      using reachable_items_ok [of P "Network opts kp mgr" st]
      by (simp add: manager_Network renter_only_Network)
    then show "keys_identical ?item \<and> items_ok (manager st')"
      by (simp add: st' items_ok_update consigned_item_ok)
  qed
  from saved keys local global show ?thesis by blast
qed

theorem consign_keys_identical_witness:
  "items_ok Map.empty
   \<and> \<not> farmer example_options
   \<and> reachable example_prims (Network example_options ''R'' Map.empty)
       (store example_prims example_network [1, 2] ''1h'' 1000 1001)
   \<and> keys_identical (loaded_item example_env
        (store example_prims example_network [1, 2] ''1h'' 1000 1001) example_pending)
   \<and> fst (pending_contract example_prims example_env
            (store example_prims example_network [1, 2] ''1h'' 1000 1001)
            example_pending (example_contact ''F'')) = Inr ''0102''
   \<and> manager example_renter ''0102'' = Some example_item
   \<and> fst ` set (contracts example_item) = {''F''}
   \<and> fst ` set (trees example_item) = {''F''}
   \<and> fst ` set (item_challenges example_item) = {''F''}
   \<and> fst ` set (meta example_item) = {''F''}
   \<and> keys_identical example_item
   \<and> items_ok (manager example_renter)"
proof -
  have e: "items_ok Map.empty"
    by (simp add: items_ok_def)
  have f: "\<not> farmer example_options"
    by (simp add: example_options_def)
  have r: "reachable example_prims (Network example_options ''R'' Map.empty)
             (store example_prims example_network [1, 2] ''1h'' 1000 1001)"
    unfolding example_network_def by (rule reach_step [OF reach_init step_store])
  have l: "keys_identical (loaded_item example_env
        (store example_prims example_network [1, 2] ''1h'' 1000 1001) example_pending)"
    by (simp add: loaded_item_def manager_load_def store_frame example_network_def
        manager_Network example_env_def keys_identical_new)
  have c: "consigned_item example_env
             (store example_prims example_network [1, 2] ''1h'' 1000 1001)
             example_pending (example_contact ''F'') = example_item"
    by (simp add: consigned_item_def loaded_item_def manager_load_def store_frame
        example_network_def manager_Network example_env_def new_StorageItem_def
        record_farmer_def example_item_def example_contact_def example_pending_def
        example_prims_def)
  show ?thesis
    using e f r l
      consign_keys_identical [OF example_consign, of Map.empty example_options "''R''"]
    by (simp add: c example_consign example_renter_manager) (simp add: example_item_def)
qed

text \<open>
  C6 as stated fails on a farmer. The instance joins as a farmer; its handler saves the
  contract of the renter \<open>E\<close> for the shard \<open>0102\<close> with \<open>contracts\<close> and \<open>meta\<close> only; the
  instance then stores the same shard and consigns it to \<open>F\<close>. The pending contract
  succeeds, and the item it saves has the keys \<open>E, F\<close> in \<open>contracts\<close> and \<open>meta\<close> and \<open>F\<close>
  alone in \<open>trees\<close> and \<open>challenges\<close>.
\<close>

theorem consign_on_farmer_stub:
  "reachable example_prims (Network (example_options\<lparr>farmer := True\<rparr>) ''R'' Map.empty)
     farmer_stored
   \<and> map_of (pendingContracts farmer_stored) ''0102'' = Some example_pending
   \<and> fst (pending_contract example_prims example_env farmer_stored example_pending
            (example_contact ''F'')) = Inr ''0102''
   \<and> manager farmer_consigned ''0102'' = Some mixed_item
   \<and> fst ` set (contracts mixed_item) = {''E'', ''F''}
   \<and> fst ` set (trees mixed_item) = {''F''}
   \<and> fst ` set (item_challenges mixed_item) = {''F''}
   \<and> fst ` set (meta mixed_item) = {''E'', ''F''}
   \<and> \<not> keys_identical mixed_item"
  by (simp add: farmer_stored_reachable farmer_stored_pending farmer_consign)
     (auto simp: mixed_item_def keys_identical_def)

subsection \<open>Joining and leaving\<close>

text \<open>
  C4 (a second join). On an instance that is open, at any point of its history,
  \<open>join\<close> throws the assertion \<open>Network interface already open\<close> and leaves the whole
  state as it was: the hooks, the pending contracts, the ping timers, the open flag and
  every other field. The first \<open>join\<close> of a new instance does not fail so.
\<close>

theorem join_twice:
  assumes "reachable P (Network opts kp mgr) st" and "opened st"
  shows "join P E st = (Inl (Thrown (AssertionError ''Network interface already open'')), st)
       \<and> fst (join P E (Network opts kp mgr))
           \<noteq> Inl (Thrown (AssertionError ''Network interface already open''))"
  using assms by (simp add: reachable_join_already_open join_fresh)

theorem join_twice_witness:
  "reachable example_prims (Network example_options ''R'' Map.empty) example_joined
   \<and> opened example_joined
   \<and> fst (join example_prims example_env (Network example_options ''R'' Map.empty)) = Inr ()
   \<and> join example_prims example_env example_joined
       = (Inl (Thrown (AssertionError ''Network interface already open'')), example_joined)"
proof -
  have r: "reachable example_prims (Network example_options ''R'' Map.empty) example_joined"
    using example_joined_reachable by (simp add: example_network_def)
  have o: "opened example_joined"
    by (simp add: example_joined_open)
  show ?thesis
    using r o example_join_ok join_twice [OF r o, of example_env]
    by (simp add: example_network_def)
qed

text \<open>
  C10 (no rejoin after leave). \<open>leave\<close> on an open instance keeps the open flag set,
  whatever its outcome; the flag stays set in every later state, and \<open>join\<close> there
  throws the assertion \<open>Network interface already open\<close> and changes nothing.
\<close>

theorem leave_keeps_open:
  assumes "reachable P (Network opts kp mgr) st" and "opened st"
    and "reachable P (snd (leave E st)) st'"
  shows "opened (snd (leave E st)) \<and> opened st'
       \<and> join P E' st' = (Inl (Thrown (AssertionError ''Network interface already open'')), st')"
proof -
  have l: "opened (snd (leave E st))"
    using assms(2) by (simp add: leave_frame)
  have o: "opened st'"
    using assms(3) l by (rule reachable_opened)
  have "reachable P (Network opts kp mgr) (snd (leave E st))"
    using assms(1) step_leave by (rule reach_step)
  with assms(3) have "reachable P (Network opts kp mgr) st'"
    by (rule reachable_trans)
  then have "join P E' st'
               = (Inl (Thrown (AssertionError ''Network interface already open'')), st')"
    using o by (rule reachable_join_already_open)
  with l o show ?thesis by simp
qed

theorem leave_keeps_open_witness:
  "opened example_joined
   \<and> fst (leave example_env example_joined) = Inr ()
   \<and> opened (snd (leave example_env example_joined))
   \<and> join example_prims example_env (snd (leave example_env example_joined))
       = (Inl (Thrown (AssertionError ''Network interface already open'')),
          snd (leave example_env example_joined))"
proof -
  have r: "reachable example_prims (Network example_options ''R'' Map.empty) example_joined"
    using example_joined_reachable by (simp add: example_network_def)
  have o: "opened example_joined"
    by (simp add: example_joined_open)
  have l: "fst (leave example_env example_joined) = Inr ()"
    using example_joined_open
    by (simp add: leave_def removePingInterval_def example_env_def split: option.splits)
  show ?thesis
    using o l leave_keeps_open [OF r o reach_init, of example_env example_env]
    by simp
qed

end
